theory Spec2Isabelle
  imports Main "HOL-Library.Word" "HOL-Library.Signed_Division"
begin

unbundle bit_operations_syntax

section \<open>The encoder loop of screenrecord.cpp\<close>

text \<open>
  The development embeds \<^verbatim>\<open>runEncoder\<close> (screenrecord.cpp, lines 374-653) and the part
  of \<^verbatim>\<open>recordScreen\<close> that follows its call (lines 750-777).  The encoders, the muxer,
  the audio recorder, the monotonic clock and the signal handler are collaborators: what
  they answer is an input of the model, one record per loop iteration, and every call the
  loop makes on them is written to a list of events, in program order.
\<close>

subsection \<open>Machine types and constants\<close>

type_synonym int64 = "64 word"
type_synonym uint32 = "32 word"

text \<open>\<^verbatim>\<open>status_t\<close> is a signed 32-bit code that the loop only compares.\<close>

type_synonym status_t = int

text \<open>
  Modelled from the spec: the status codes of the encoder contract (section 4.1: data
  ready, would-block, format-changed, buffers-invalidated, fatal).  They are declared in
  utils/Errors.h and media/stagefright/MediaErrors.h, which are not among the sources;
  the numbers are the platform's.  The loop uses them as the labels of one
  \<^verbatim>\<open>switch\<close>, so only their being pairwise different matters.
\<close>

definition NO_ERROR :: status_t where
  "NO_ERROR = 0"

definition MINUS_EAGAIN :: status_t where
  "MINUS_EAGAIN = - 11"

definition INFO_FORMAT_CHANGED :: status_t where
  "INFO_FORMAT_CHANGED = - 1012"

definition INFO_OUTPUT_BUFFERS_CHANGED :: status_t where
  "INFO_OUTPUT_BUFFERS_CHANGED = - 1014"

definition INVALID_OPERATION :: status_t where
  "INVALID_OPERATION = - 38"

text \<open>
  Modelled from the spec: the flag set of a sample (section 3: is-sync, is-config,
  is-end-of-stream).  The masks are declared in media/stagefright/MediaCodec.h, which is
  not among the sources; the numbers are the platform's, one bit each.
\<close>

definition BUFFER_FLAG_SYNCFRAME :: uint32 where
  "BUFFER_FLAG_SYNCFRAME = 1"

definition BUFFER_FLAG_CODECCONFIG :: uint32 where
  "BUFFER_FLAG_CODECCONFIG = 2"

definition BUFFER_FLAG_EOS :: uint32 where
  "BUFFER_FLAG_EOS = 4"

text \<open>
  \<^verbatim>\<open>systemTime(...) / 1000\<close> on \<^verbatim>\<open>int64_t\<close>: C++ division truncates towards zero.
\<close>

definition nsec_to_usec :: "int64 \<Rightarrow> int64" where
  "nsec_to_usec t = word_of_int (sint t sdiv 1000)"

text \<open>
  Modelled from the spec: the deadline is the session start plus the time limit
  (section 4.4).  \<^verbatim>\<open>seconds_to_nanoseconds\<close> is declared in utils/Timers.h, which is not
  among the sources; it is applied to the 32-bit time limit and gives an \<^verbatim>\<open>int64_t\<close>.
\<close>

definition seconds_to_nanoseconds :: "uint32 \<Rightarrow> int64" where
  "seconds_to_nanoseconds secs = ucast secs * 1000000000"

subsection \<open>Events: the calls the loop makes\<close>

datatype stream = Video | Audio

datatype event =
    SignalCaught
  | GetOutputBuffers stream
  | GetInputBuffers
  | RecorderInit
  | RecorderStart
  | RecorderStop
  | DequeueInputBuffer
  | RecorderRead
  | QueueInputBuffer nat int int64
  | DequeueOutputBuffer stream
  | GetOutputFormat stream
  | AddTrack stream
  | MuxerStart
  | WriteSampleData stream int nat int64 uint32
  | ReleaseOutputBuffer stream nat
  | ReleaseEncoder stream
  | DestroyDisplay
  | StopEncoder stream
  | MuxerStop

subsection \<open>What the collaborators answer\<close>

text \<open>
  One encoder's output side during one iteration: the result of
  \<^verbatim>\<open>dequeueOutputBuffer\<close> with its out-parameters (the offset is only logged), and the
  results of the calls the loop may make while handling it.
\<close>

record out_env =
  deq_status :: status_t
  deq_bufIndex :: nat
  deq_size :: nat
  deq_pts :: int64
  deq_flags :: uint32
  now_nsec :: int64
  write_status :: status_t
  release_status :: status_t
  addTrack_ret :: int
  start_status :: status_t
  getBuffers_status :: status_t

record in_env =
  in_status :: status_t
  in_bufIndex :: nat
  read_size :: int
  in_now :: int64

text \<open>
  One iteration.  \<^verbatim>\<open>signalCatcher\<close> runs asynchronously; the model lets it run at three
  points of an iteration: before the loop test, after the test and before the video
  output is handled, and after the video output is handled.
\<close>

record iter_env =
  sig_before_test :: bool
  now_test :: int64
  audio_in :: in_env
  sig_before_video :: bool
  video_out :: out_env
  sig_before_audio :: bool
  audio_out :: out_env

record pre_env =
  start_nsec :: int64
  video_buffers_status :: status_t
  audio_out_buffers_status :: status_t
  audio_in_buffers_status :: status_t
  initCheck_status :: status_t

record config =
  gRecordAudio :: bool
  gTimeLimitSec :: uint32

subsection \<open>The state of the loop\<close>

record state =
  videoTrackIdx :: int
  audioTrackIdx :: int
  debugNumFrames :: uint32
  tracksAdded :: uint32
  lastAudioPtsUs :: int64
  gStopRequested :: bool

definition initial_state :: state where
  "initial_state =
     \<lparr>videoTrackIdx = - 1, audioTrackIdx = - 1, debugNumFrames = 0, tracksAdded = 0,
      lastAudioPtsUs = 0, gStopRequested = False\<rparr>"

text \<open>
  Modelled from the spec: a failed \<^verbatim>\<open>CHECK\<close> is fatal (section 4.4).  The macro is
  declared in media/stagefright/foundation/ADebug.h, which is not among the sources; it
  aborts the process.  So an iteration that does not go on either returns an error code
  or fails a \<^verbatim>\<open>CHECK\<close>.
\<close>

datatype failure = Failed status_t | CheckFailed

datatype result = Running state | Returned status_t | Aborted

subsection \<open>The loop body\<close>

text \<open>\<^verbatim>\<open>signalCatcher\<close> (lines 83-96): the flag is raised.\<close>

definition signalCatcher :: "bool \<Rightarrow> state \<Rightarrow> event list \<times> state" where
  "signalCatcher arrives s =
     (if arrives then ([SignalCaught], s\<lparr>gStopRequested := True\<rparr>) else ([], s))"

text \<open>
  Lines 455-467: feeding the audio encoder.  The status of \<^verbatim>\<open>queueInputBuffer\<close> is
  overwritten by the next call and never tested.
\<close>

definition audio_input :: "in_env \<Rightarrow> event list" where
  "audio_input i =
     (if in_status i = NO_ERROR
      then [DequeueInputBuffer, RecorderRead,
            QueueInputBuffer (in_bufIndex i) (read_size i) (nsec_to_usec (in_now i))]
      else [DequeueInputBuffer])"

text \<open>Lines 470-554: the video encoder's output.\<close>

definition video_output :: "bool \<Rightarrow> out_env \<Rightarrow> state \<Rightarrow> event list \<times> (failure + state)" where
  "video_output recordAudio e s =
     (let err = deq_status e in
      if err = NO_ERROR then
        (let size = (if deq_flags e AND BUFFER_FLAG_CODECCONFIG \<noteq> 0 then 0 else deq_size e) in
         if size \<noteq> 0 \<and> videoTrackIdx s = - 1 then
           ([DequeueOutputBuffer Video], Inl CheckFailed)
         else
           (let ptsUsec = (if deq_pts e = 0 then nsec_to_usec (now_nsec e) else deq_pts e);
                written = (if size \<noteq> 0
                           then [WriteSampleData Video (videoTrackIdx s) (deq_bufIndex e)
                                   ptsUsec (deq_flags e)]
                           else []);
                s1 = (if size \<noteq> 0 then s\<lparr>debugNumFrames := debugNumFrames s + 1\<rparr> else s)
            in
            if size \<noteq> 0 \<and> write_status e \<noteq> NO_ERROR then
              (DequeueOutputBuffer Video # written, Inl (Failed (write_status e)))
            else if release_status e \<noteq> NO_ERROR then
              (DequeueOutputBuffer Video # written @ [ReleaseOutputBuffer Video (deq_bufIndex e)],
               Inl (Failed (release_status e)))
            else
              (DequeueOutputBuffer Video # written @ [ReleaseOutputBuffer Video (deq_bufIndex e)],
               Inr (if deq_flags e AND BUFFER_FLAG_EOS \<noteq> 0
                    then s1\<lparr>gStopRequested := False\<rparr> else s1))))
      else if err = MINUS_EAGAIN then
        ([DequeueOutputBuffer Video], Inr s)
      else if err = INFO_FORMAT_CHANGED then
        (let s1 = s\<lparr>videoTrackIdx := addTrack_ret e, tracksAdded := tracksAdded s + 1\<rparr> in
         if (if recordAudio then 2 else 1) \<le> tracksAdded s1 then
           (if start_status e \<noteq> NO_ERROR
            then ([DequeueOutputBuffer Video, GetOutputFormat Video, AddTrack Video, MuxerStart],
                  Inl (Failed (start_status e)))
            else ([DequeueOutputBuffer Video, GetOutputFormat Video, AddTrack Video, MuxerStart],
                  Inr s1))
         else ([DequeueOutputBuffer Video, GetOutputFormat Video, AddTrack Video], Inr s1))
      else if err = INFO_OUTPUT_BUFFERS_CHANGED then
        (if getBuffers_status e \<noteq> NO_ERROR
         then ([DequeueOutputBuffer Video, GetOutputBuffers Video],
               Inl (Failed (getBuffers_status e)))
         else ([DequeueOutputBuffer Video, GetOutputBuffers Video], Inr s))
      else if err = INVALID_OPERATION then
        ([DequeueOutputBuffer Video], Inl (Failed err))
      else
        ([DequeueOutputBuffer Video], Inl (Failed err)))"

text \<open>
  Lines 575-578: the audio timestamp, from the last one written and the one reported.
  The addition is on \<^verbatim>\<open>int64_t\<close>; it wraps around here, as the two's-complement
  machine addition does.
\<close>

definition audio_pts :: "int64 \<Rightarrow> int64 \<Rightarrow> int64" where
  "audio_pts lastPts reported =
     (let ptsUsec = (if reported <s 0 then 0 else reported) in
      if ptsUsec <s lastPts then lastPts + 23219 else ptsUsec)"

text \<open>Lines 557-640: the audio encoder's output.\<close>

definition audio_output :: "out_env \<Rightarrow> state \<Rightarrow> event list \<times> (failure + state)" where
  "audio_output e s =
     (let err = deq_status e in
      if err = NO_ERROR then
        (let size = (if deq_flags e AND BUFFER_FLAG_CODECCONFIG \<noteq> 0 then 0 else deq_size e) in
         if size \<noteq> 0 \<and> audioTrackIdx s = - 1 then
           ([DequeueOutputBuffer Audio], Inl CheckFailed)
         else
           (let ptsUsec = audio_pts (lastAudioPtsUs s) (deq_pts e);
                written = (if size \<noteq> 0
                           then [WriteSampleData Audio (audioTrackIdx s) (deq_bufIndex e)
                                   ptsUsec (deq_flags e)]
                           else []);
                s1 = (if size \<noteq> 0 then s\<lparr>lastAudioPtsUs := ptsUsec\<rparr> else s)
            in
            if size \<noteq> 0 \<and> write_status e \<noteq> NO_ERROR then
              (DequeueOutputBuffer Audio # written, Inl (Failed (write_status e)))
            else if release_status e \<noteq> NO_ERROR then
              (DequeueOutputBuffer Audio # written @ [ReleaseOutputBuffer Audio (deq_bufIndex e)],
               Inl (Failed (release_status e)))
            else
              (DequeueOutputBuffer Audio # written @ [ReleaseOutputBuffer Audio (deq_bufIndex e)],
               Inr (if deq_flags e AND BUFFER_FLAG_EOS \<noteq> 0
                    then s1\<lparr>gStopRequested := False\<rparr> else s1))))
      else if err = MINUS_EAGAIN then
        ([DequeueOutputBuffer Audio], Inr s)
      else if err = INFO_FORMAT_CHANGED then
        (let s1 = s\<lparr>audioTrackIdx := addTrack_ret e, tracksAdded := tracksAdded s + 1\<rparr> in
         if 2 \<le> tracksAdded s1 then
           (if start_status e \<noteq> NO_ERROR
            then ([DequeueOutputBuffer Audio, GetOutputFormat Audio, AddTrack Audio, MuxerStart],
                  Inl (Failed (start_status e)))
            else ([DequeueOutputBuffer Audio, GetOutputFormat Audio, AddTrack Audio, MuxerStart],
                  Inr s1))
         else ([DequeueOutputBuffer Audio, GetOutputFormat Audio, AddTrack Audio], Inr s1))
      else if err = INFO_OUTPUT_BUFFERS_CHANGED then
        (if getBuffers_status e \<noteq> NO_ERROR
         then ([DequeueOutputBuffer Audio, GetOutputBuffers Audio],
               Inl (Failed (getBuffers_status e)))
         else ([DequeueOutputBuffer Audio, GetOutputBuffers Audio], Inr s))
      else if err = INVALID_OPERATION then
        ([DequeueOutputBuffer Audio], Inl (Failed err))
      else
        ([DequeueOutputBuffer Audio], Inl (Failed err)))"

text \<open>Lines 454-641: one pass through the body of the \<^verbatim>\<open>while\<close>, after its tests.\<close>

definition iteration :: "bool \<Rightarrow> iter_env \<Rightarrow> state \<Rightarrow> event list \<times> (failure + state)" where
  "iteration recordAudio e s =
     (let t0 = (if recordAudio then audio_input (audio_in e) else []);
          (t1, s1) = signalCatcher (sig_before_video e) s;
          (t2, r2) = video_output recordAudio (video_out e) s1
      in case r2 of
           Inl f \<Rightarrow> (t0 @ t1 @ t2, Inl f)
         | Inr s2 \<Rightarrow>
             (let (t3, s3) = signalCatcher (sig_before_audio e) s2 in
              if recordAudio then
                (let (t4, r4) = audio_output (audio_out e) s3
                 in (t0 @ t1 @ t2 @ t3 @ t4, r4))
              else (t0 @ t1 @ t2 @ t3, Inr s3)))"

subsection \<open>The loop and its caller\<close>

text \<open>Line 644, reached by both ways out of the \<^verbatim>\<open>while\<close>.\<close>

definition loop_exit :: "bool \<Rightarrow> event list" where
  "loop_exit recordAudio = (if recordAudio then [RecorderStop] else [])"

text \<open>
  Lines 442-642.  The list holds what the collaborators answer in the successive
  iterations; when it is used up the loop is still running, in the state given.
\<close>

fun loop :: "bool \<Rightarrow> int64 \<Rightarrow> iter_env list \<Rightarrow> state \<Rightarrow> event list \<times> result" where
  "loop recordAudio endWhenNsec [] s = ([], Running s)"
| "loop recordAudio endWhenNsec (e # es) s =
     (let (t0, s0) = signalCatcher (sig_before_test e) s in
      if gStopRequested s0 then (t0 @ loop_exit recordAudio, Returned NO_ERROR)
      else if endWhenNsec <s now_test e then (t0 @ loop_exit recordAudio, Returned NO_ERROR)
      else
        (case iteration recordAudio e s0 of
           (t1, Inl (Failed err)) \<Rightarrow> (t0 @ t1, Returned err)
         | (t1, Inl CheckFailed) \<Rightarrow> (t0 @ t1, Aborted)
         | (t1, Inr s1) \<Rightarrow>
             (let (t2, r) = loop recordAudio endWhenNsec es s1 in (t0 @ t1 @ t2, r))))"

text \<open>Lines 374-653.\<close>

definition runEncoder :: "config \<Rightarrow> pre_env \<Rightarrow> iter_env list \<Rightarrow> event list \<times> result" where
  "runEncoder cfg p es =
     (let endWhenNsec = start_nsec p + seconds_to_nanoseconds (gTimeLimitSec cfg) in
      if video_buffers_status p \<noteq> NO_ERROR then
        ([GetOutputBuffers Video], Returned (video_buffers_status p))
      else if gRecordAudio cfg then
        (if audio_out_buffers_status p \<noteq> NO_ERROR then
           ([GetOutputBuffers Video, GetOutputBuffers Audio],
            Returned (audio_out_buffers_status p))
         else if audio_in_buffers_status p \<noteq> NO_ERROR then
           ([GetOutputBuffers Video, GetOutputBuffers Audio, GetInputBuffers],
            Returned (audio_in_buffers_status p))
         else if initCheck_status p \<noteq> NO_ERROR then
           ([GetOutputBuffers Video, GetOutputBuffers Audio, GetInputBuffers, RecorderInit],
            Returned (initCheck_status p))
         else
           (let (t, r) = loop True endWhenNsec es initial_state in
            ([GetOutputBuffers Video, GetOutputBuffers Audio, GetInputBuffers, RecorderInit,
              RecorderStart] @ t, r)))
      else
        (let (t, r) = loop False endWhenNsec es initial_state in
         (GetOutputBuffers Video # t, r)))"

text \<open>
  Lines 750-777 of \<^verbatim>\<open>recordScreen\<close>: the call of \<^verbatim>\<open>runEncoder\<close> and what follows it.
\<close>

definition recordScreen_tail :: "config \<Rightarrow> pre_env \<Rightarrow> iter_env list \<Rightarrow> event list \<times> result" where
  "recordScreen_tail cfg p es =
     (case runEncoder cfg p es of
        (t, Returned err) \<Rightarrow>
          (if err \<noteq> NO_ERROR then
             (t @ ReleaseEncoder Video # (if gRecordAudio cfg then [ReleaseEncoder Audio] else []),
              Returned err)
           else
             (t @ [DestroyDisplay, StopEncoder Video]
                @ (if gRecordAudio cfg then [StopEncoder Audio] else [])
                @ [MuxerStop, ReleaseEncoder Video]
                @ (if gRecordAudio cfg then [ReleaseEncoder Audio] else []),
              Returned 0))
      | (t, r) \<Rightarrow> (t, r))"

subsection \<open>Reading the list of events\<close>

definition is_write :: "event \<Rightarrow> bool" where
  "is_write x = (case x of WriteSampleData st i b p f \<Rightarrow> True | _ \<Rightarrow> False)"

text \<open>The timestamps of the samples written for one stream, in the order of the calls.\<close>

fun timestamps :: "stream \<Rightarrow> event list \<Rightarrow> int64 list" where
  "timestamps st [] = []"
| "timestamps st (x # t) =
     (case x of
        WriteSampleData st' i b p f \<Rightarrow> (if st' = st then p # timestamps st t else timestamps st t)
      | _ \<Rightarrow> timestamps st t)"

text \<open>No sample is written before the first \<^verbatim>\<open>muxer->start()\<close>.\<close>

fun no_write_before_start :: "event list \<Rightarrow> bool" where
  "no_write_before_start [] = True"
| "no_write_before_start (x # t) =
     (case x of
        MuxerStart \<Rightarrow> True
      | WriteSampleData st i b p f \<Rightarrow> False
      | _ \<Rightarrow> no_write_before_start t)"

text \<open>
  \<^verbatim>\<open>muxer->start()\<close> is called right after the \<^verbatim>\<open>addTrack\<close> that makes the number of
  tracks equal to the expected one, and nowhere else; \<open>n\<close> tracks have been added before
  the list begins.  As the number of tracks only grows, such a list holds at most one
  start.
\<close>

fun start_discipline :: "nat \<Rightarrow> nat \<Rightarrow> event list \<Rightarrow> bool" where
  "start_discipline expected n [] = True"
| "start_discipline expected n (x # t) =
     (case x of
        AddTrack st \<Rightarrow>
          (if Suc n = expected
           then (case t of
                   [] \<Rightarrow> False
                 | y # t' \<Rightarrow> y = MuxerStart \<and> start_discipline expected (Suc n) t')
           else start_discipline expected (Suc n) t)
      | MuxerStart \<Rightarrow> False
      | _ \<Rightarrow> start_discipline expected n t)"

text \<open>No sample is written after the signal handler has run.\<close>

fun no_write_after_signal :: "event list \<Rightarrow> bool" where
  "no_write_after_signal [] = True"
| "no_write_after_signal (x # t) =
     (if x = SignalCaught then list_all (\<lambda>y. \<not> is_write y) t else no_write_after_signal t)"

text \<open>
  The buffer dequeued from a stream is released later in the list.
\<close>

fun released_after_dequeue :: "stream \<Rightarrow> nat \<Rightarrow> event list \<Rightarrow> bool" where
  "released_after_dequeue st b [] = False"
| "released_after_dequeue st b (x # t) =
     (if x = DequeueOutputBuffer st then ReleaseOutputBuffer st b \<in> set t
      else released_after_dequeue st b t)"

text \<open>The number of tracks that a session expects (lines 527 and 613).\<close>

definition expected_tracks :: "config \<Rightarrow> nat" where
  "expected_tracks cfg = (if gRecordAudio cfg then 2 else 1)"

subsection \<open>The audio rule in the words of the specification\<close>



subsection \<open>Notions used in the statements\<close>

text \<open>The calls of lines 387-436 when none of them fails, and the deadline of line 383.\<close>

definition setup_calls :: "bool \<Rightarrow> event list" where
  "setup_calls recordAudio =
     (if recordAudio
      then [GetOutputBuffers Video, GetOutputBuffers Audio, GetInputBuffers, RecorderInit,
            RecorderStart]
      else [GetOutputBuffers Video])"

definition end_time :: "config \<Rightarrow> pre_env \<Rightarrow> int64" where
  "end_time cfg p = start_nsec p + seconds_to_nanoseconds (gTimeLimitSec cfg)"

text \<open>The number of \<^verbatim>\<open>addTrack\<close> calls in a list of events.\<close>

fun added_tracks :: "event list \<Rightarrow> nat" where
  "added_tracks [] = 0"
| "added_tracks (x # t) =
     (case x of AddTrack st \<Rightarrow> Suc (added_tracks t) | _ \<Rightarrow> added_tracks t)"

text \<open>
  The number of \<^verbatim>\<open>INFO_FORMAT_CHANGED\<close> results in one iteration, on the outputs that the
  loop polls.
\<close>

definition format_changes :: "bool \<Rightarrow> iter_env \<Rightarrow> nat" where
  "format_changes recordAudio e =
     (if deq_status (video_out e) = INFO_FORMAT_CHANGED then 1 else 0)
     + (if recordAudio \<and> deq_status (audio_out e) = INFO_FORMAT_CHANGED then 1 else 0)"

text \<open>No track has been added yet.\<close>

definition unregistered :: "state \<Rightarrow> bool" where
  "unregistered s \<longleftrightarrow> videoTrackIdx s = - 1 \<and> tracksAdded s = 0"

text \<open>Lines 766-776: what \<^verbatim>\<open>recordScreen\<close> does after the loop has returned normally.\<close>

definition shutdown_calls :: "bool \<Rightarrow> event list" where
  "shutdown_calls recordAudio =
     [DestroyDisplay, StopEncoder Video]
     @ (if recordAudio then [StopEncoder Audio] else [])
     @ [MuxerStop, ReleaseEncoder Video]
     @ (if recordAudio then [ReleaseEncoder Audio] else [])"

text \<open>No signal arrives during the iteration, and its test is made before the deadline.\<close>

definition undisturbed :: "int64 \<Rightarrow> iter_env \<Rightarrow> bool" where
  "undisturbed endWhenNsec e \<longleftrightarrow>
     \<not> sig_before_test e \<and> \<not> sig_before_video e \<and> \<not> sig_before_audio e
     \<and> \<not> endWhenNsec <s now_test e"

text \<open>An output that the loop polls gives a buffer with the end-of-stream flag.\<close>

definition eos_seen :: "bool \<Rightarrow> iter_env \<Rightarrow> bool" where
  "eos_seen recordAudio e \<longleftrightarrow>
     (deq_status (video_out e) = NO_ERROR \<and> deq_flags (video_out e) AND BUFFER_FLAG_EOS \<noteq> 0)
     \<or> (recordAudio \<and> deq_status (audio_out e) = NO_ERROR
        \<and> deq_flags (audio_out e) AND BUFFER_FLAG_EOS \<noteq> 0)"

text \<open>
  Handling what an encoder's output gives does not fail: either there is nothing to
  dequeue, or there is a buffer, with any flags, that is released without error and, if
  it carries data, belongs to a stream with a track and is written without error.
\<close>

definition no_failure :: "int \<Rightarrow> out_env \<Rightarrow> bool" where
  "no_failure trackIdx e \<longleftrightarrow>
     deq_status e = MINUS_EAGAIN
     \<or> (deq_status e = NO_ERROR \<and> release_status e = NO_ERROR
        \<and> (deq_size e = 0 \<or> deq_flags e AND BUFFER_FLAG_CODECCONFIG \<noteq> 0
           \<or> (trackIdx \<noteq> - 1 \<and> write_status e = NO_ERROR)))"

subsection \<open>Sessions to run\<close>

text \<open>An encoder with nothing to give, and a muxer and encoders that accept every call.\<close>

definition quiet_out :: out_env where
  "quiet_out =
     \<lparr>deq_status = MINUS_EAGAIN, deq_bufIndex = 0, deq_size = 0, deq_pts = 0, deq_flags = 0,
      now_nsec = 0, write_status = NO_ERROR, release_status = NO_ERROR, addTrack_ret = 0,
      start_status = NO_ERROR, getBuffers_status = NO_ERROR\<rparr>"

definition format_changed :: "int \<Rightarrow> out_env" where
  "format_changed idx = quiet_out\<lparr>deq_status := INFO_FORMAT_CHANGED, addTrack_ret := idx\<rparr>"

definition data_buffer :: "nat \<Rightarrow> nat \<Rightarrow> int64 \<Rightarrow> uint32 \<Rightarrow> out_env" where
  "data_buffer b n pts fl =
     quiet_out\<lparr>deq_status := NO_ERROR, deq_bufIndex := b, deq_size := n, deq_pts := pts,
               deq_flags := fl\<rparr>"

definition quiet_iter :: iter_env where
  "quiet_iter =
     \<lparr>sig_before_test = False, now_test = 0,
      audio_in = \<lparr>in_status = MINUS_EAGAIN, in_bufIndex = 0, read_size = 0, in_now = 0\<rparr>,
      sig_before_video = False, video_out = quiet_out,
      sig_before_audio = False, audio_out = quiet_out\<rparr>"

definition pre_ok :: pre_env where
  "pre_ok =
     \<lparr>start_nsec = 0, video_buffers_status = NO_ERROR, audio_out_buffers_status = NO_ERROR,
      audio_in_buffers_status = NO_ERROR, initCheck_status = NO_ERROR\<rparr>"

definition video_only :: config where
  "video_only = \<lparr>gRecordAudio = False, gTimeLimitSec = 180\<rparr>"

definition with_audio :: config where
  "with_audio = \<lparr>gRecordAudio = True, gTimeLimitSec = 180\<rparr>"

text \<open>
  Sessions with audio: both formats become known in the first iteration, then the audio
  encoder reports one buffer per iteration with the given timestamps.
\<close>

definition audio_iter :: "int64 \<Rightarrow> iter_env" where
  "audio_iter pts = quiet_iter\<lparr>audio_out := data_buffer 0 8 pts 0\<rparr>"

definition both_formats :: iter_env where
  "both_formats = quiet_iter\<lparr>video_out := format_changed 0, audio_out := format_changed 1\<rparr>"

definition scenario_D :: "iter_env list" where
  "scenario_D = [both_formats, audio_iter 100, audio_iter 90, audio_iter 50]"

definition overflow_session :: "iter_env list" where
  "overflow_session = [both_formats, audio_iter 9223372036854775807, audio_iter 0]"

text \<open>
  A session with audio in which the video encoder gives its format and then a frame
  before the audio encoder has given its format.
\<close>

definition early_video_session :: "iter_env list" where
  "early_video_session =
     [quiet_iter\<lparr>video_out := format_changed 0\<rparr>,
      quiet_iter\<lparr>video_out := data_buffer 3 10 5 1\<rparr>]"

text \<open>The two orders in which the formats of a session with audio can become known.\<close>

definition video_first :: "iter_env list" where
  "video_first =
     [quiet_iter\<lparr>video_out := format_changed 0\<rparr>, quiet_iter\<lparr>audio_out := format_changed 1\<rparr>]"

definition audio_first :: "iter_env list" where
  "audio_first =
     [quiet_iter\<lparr>audio_out := format_changed 0\<rparr>, quiet_iter\<lparr>video_out := format_changed 1\<rparr>]"

text \<open>
  The video encoder reports a format change twice; in the video-only session the muxer
  refuses the second start.
\<close>

definition repeated_format :: "iter_env list" where
  "repeated_format =
     [quiet_iter\<lparr>video_out := format_changed 0\<rparr>,
      quiet_iter\<lparr>video_out := (format_changed 0)\<lparr>start_status := INVALID_OPERATION\<rparr>\<rparr>]"

definition twice_video :: "iter_env list" where
  "twice_video =
     [quiet_iter\<lparr>video_out := format_changed 0\<rparr>, quiet_iter\<lparr>video_out := format_changed 1\<rparr>]"

text \<open>
  A video-only session in which a frame without timestamp is handled 999 nanoseconds
  after the session started.
\<close>

definition early_pre :: pre_env where
  "early_pre = pre_ok\<lparr>start_nsec := 5000\<rparr>"

definition untimed_frame :: "iter_env list" where
  "untimed_frame =
     [quiet_iter\<lparr>now_test := 5100, video_out := format_changed 0\<rparr>,
      quiet_iter\<lparr>now_test := 5500,
                 video_out := (data_buffer 3 10 0 1)\<lparr>now_nsec := 5999\<rparr>\<rparr>]"

text \<open>
  A video-only session: the format, then a frame with the end-of-stream flag in an
  iteration during which the signal arrives, then one more frame.
\<close>

definition cancelled_session :: "iter_env list" where
  "cancelled_session =
     [quiet_iter\<lparr>video_out := format_changed 0\<rparr>,
      quiet_iter\<lparr>sig_before_video := True, video_out := data_buffer 3 10 5 5\<rparr>,
      quiet_iter\<lparr>video_out := data_buffer 4 10 6 0\<rparr>]"

text \<open>A video-only session with end-of-stream buffers and no signal.\<close>

definition eos_session :: "iter_env list" where
  "eos_session =
     [quiet_iter\<lparr>video_out := format_changed 0\<rparr>,
      quiet_iter\<lparr>video_out := data_buffer 3 10 5 4\<rparr>,
      quiet_iter\<lparr>video_out := data_buffer 4 0 0 4\<rparr>]"

text \<open>
  Three iterations of a session with audio in which both streams give end-of-stream
  buffers, and the state in which they begin: both tracks are registered.
\<close>

definition eos_iterations :: "iter_env list" where
  "eos_iterations =
     [quiet_iter\<lparr>video_out := data_buffer 3 10 5 4\<rparr>,
      quiet_iter\<lparr>audio_out := data_buffer 1 8 7 4\<rparr>,
      quiet_iter\<lparr>video_out := data_buffer 4 0 0 4, audio_out := data_buffer 2 8 9 0\<rparr>]"

definition registered_state :: state where
  "registered_state = initial_state\<lparr>videoTrackIdx := 0, audioTrackIdx := 1, tracksAdded := 2\<rparr>"

section \<open>Properties\<close>

subsection \<open>Which events a run can hold\<close>

lemma iteration_events:
  assumes "x \<in> set (fst (iteration r e s))"
  shows "(r \<and> x \<in> set (audio_input (audio_in e))) \<or> x = SignalCaught
       \<or> (\<exists>s'. x \<in> set (fst (video_output r (video_out e) s')))
       \<or> (r \<and> (\<exists>s'. x \<in> set (fst (audio_output (audio_out e) s'))))"
  using assms unfolding iteration_def Let_def signalCatcher_def
  by (auto simp: case_prod_beta split: sum.splits if_splits)

lemma loop_events:
  "x \<in> set (fst (loop r w es s)) \<Longrightarrow>
     x = SignalCaught \<or> x = RecorderStop \<or> (\<exists>e s'. x \<in> set (fst (iteration r e s')))"
proof (induction es arbitrary: s)
  case Nil
  then show ?case by simp
next
  case (Cons e es)
  then show ?case
    apply (simp add: signalCatcher_def loop_exit_def Let_def case_prod_beta
        split: if_splits prod.splits sum.splits failure.splits)
    apply (auto split: if_splits prod.splits sum.splits failure.splits)
    done
qed

lemma runEncoder_events:
  "x \<in> set (fst (runEncoder cfg p es)) \<Longrightarrow>
     x \<in> {GetOutputBuffers Video, GetOutputBuffers Audio, GetInputBuffers, RecorderInit,
            RecorderStart}
     \<or> (\<exists>w s. x \<in> set (fst (loop (gRecordAudio cfg) w es s)))"
  unfolding runEncoder_def Let_def
  by (auto simp: case_prod_beta split: if_splits)

subsection \<open>Codec-config buffers\<close>

lemma video_output_write_flags:
  "WriteSampleData st i b p f \<in> set (fst (video_output r e s)) \<Longrightarrow>
     f AND BUFFER_FLAG_CODECCONFIG = 0"
  by (auto simp: video_output_def Let_def split: if_splits)

lemma audio_output_write_flags:
  "WriteSampleData st i b p f \<in> set (fst (audio_output e s)) \<Longrightarrow>
     f AND BUFFER_FLAG_CODECCONFIG = 0"
  by (auto simp: audio_output_def Let_def split: if_splits)

lemma audio_input_no_write: "WriteSampleData st i b p f \<notin> set (audio_input x)"
  by (simp add: audio_input_def)

lemma iteration_write_flags:
  "WriteSampleData st i b p f \<in> set (fst (iteration r e s)) \<Longrightarrow>
     f AND BUFFER_FLAG_CODECCONFIG = 0"
  by (auto dest!: iteration_events simp: audio_input_no_write
      dest: video_output_write_flags audio_output_write_flags)

lemma loop_write_flags:
  "WriteSampleData st i b p f \<in> set (fst (loop r w es s)) \<Longrightarrow>
     f AND BUFFER_FLAG_CODECCONFIG = 0"
  by (auto dest!: loop_events dest: iteration_write_flags)

text \<open>
  Claim C8.  No output buffer flagged as codec config is ever passed to
  \<^verbatim>\<open>writeSampleData\<close>, on the video or on the audio path: in every run, whatever the
  collaborators answer, the flags of every sample written have the codec-config bit clear.
\<close>

theorem no_config_sample_written:
  "WriteSampleData st i b p f \<in> set (fst (runEncoder cfg pre es)) \<Longrightarrow>
     f AND BUFFER_FLAG_CODECCONFIG = 0"
  by (auto dest!: runEncoder_events dest: loop_write_flags)

theorem no_config_sample_written_witness:
  "WriteSampleData Video 0 3 5 1
     \<in> set (fst (runEncoder video_only pre_ok
               [quiet_iter\<lparr>video_out := format_changed 0\<rparr>,
                quiet_iter\<lparr>video_out := data_buffer 7 20 0 2\<rparr>,
                quiet_iter\<lparr>video_out := data_buffer 3 10 5 1\<rparr>]))
   \<and> (1 :: uint32) AND BUFFER_FLAG_CODECCONFIG = 0"
proof -
  have h: "WriteSampleData Video 0 3 5 1
     \<in> set (fst (runEncoder video_only pre_ok
               [quiet_iter\<lparr>video_out := format_changed 0\<rparr>,
                quiet_iter\<lparr>video_out := data_buffer 7 20 0 2\<rparr>,
                quiet_iter\<lparr>video_out := data_buffer 3 10 5 1\<rparr>]))"
    by code_simp
  from h no_config_sample_written [OF h] show ?thesis by simp
qed

subsection \<open>Release of the output buffers\<close>

lemma released_after_dequeue_append1:
  "released_after_dequeue st b t \<Longrightarrow> released_after_dequeue st b (t @ u)"
  by (induction t) auto

lemma released_after_dequeue_append2:
  "released_after_dequeue st b u \<Longrightarrow> DequeueOutputBuffer st \<notin> set t \<Longrightarrow>
     released_after_dequeue st b (t @ u)"
  by (induction t) auto

lemma video_output_released:
  "video_output r e s = (t, Inr s') \<Longrightarrow> deq_status e = NO_ERROR \<Longrightarrow>
     released_after_dequeue Video (deq_bufIndex e) t"
  by (auto simp: video_output_def Let_def split: if_splits)

lemma audio_output_released:
  "audio_output e s = (t, Inr s') \<Longrightarrow> deq_status e = NO_ERROR \<Longrightarrow>
     released_after_dequeue Audio (deq_bufIndex e) t"
  by (auto simp: audio_output_def Let_def split: if_splits)

lemma audio_input_no_dequeue: "DequeueOutputBuffer st \<notin> set (audio_input x)"
  by (simp add: audio_input_def)

lemma signalCatcher_no_dequeue: "DequeueOutputBuffer st \<notin> set (fst (signalCatcher b s))"
  by (simp add: signalCatcher_def)

lemma video_output_no_audio_dequeue: "DequeueOutputBuffer Audio \<notin> set (fst (video_output r e s))"
  by (auto simp: video_output_def Let_def split: if_splits)

text \<open>
  Claim C10.  In an iteration that does not abort the pipeline, every output buffer
  dequeued with \<^verbatim>\<open>NO_ERROR\<close> from either encoder is released to that encoder later in
  the same iteration, whatever its flags and its size.
\<close>

theorem dequeued_buffers_released:
  assumes "iteration r e s = (t, Inr s')"
  shows "(deq_status (video_out e) = NO_ERROR \<longrightarrow>
            released_after_dequeue Video (deq_bufIndex (video_out e)) t)
       \<and> (r \<and> deq_status (audio_out e) = NO_ERROR \<longrightarrow>
            released_after_dequeue Audio (deq_bufIndex (audio_out e)) t)"
proof -
  obtain t1 s1 where sc1: "signalCatcher (sig_before_video e) s = (t1, s1)"
    by (cases "signalCatcher (sig_before_video e) s")
  obtain t2 r2 where vo: "video_output r (video_out e) s1 = (t2, r2)"
    by (cases "video_output r (video_out e) s1")
  from assms sc1 vo obtain s2 where r2: "r2 = Inr s2"
    by (cases r2) (auto simp: iteration_def Let_def split: prod.splits if_splits)
  obtain t3 s3 where sc2: "signalCatcher (sig_before_audio e) s2 = (t3, s3)"
    by (cases "signalCatcher (sig_before_audio e) s2")
  let ?t0 = "if r then audio_input (audio_in e) else []"
  have t1nd: "DequeueOutputBuffer st \<notin> set t1" for st
    using signalCatcher_no_dequeue [of st "sig_before_video e" s] sc1 by simp
  have t3nd: "DequeueOutputBuffer st \<notin> set t3" for st
    using signalCatcher_no_dequeue [of st "sig_before_audio e" s2] sc2 by simp
  have t0nd: "DequeueOutputBuffer st \<notin> set ?t0" for st
    by (simp add: audio_input_no_dequeue)
  have t2na: "DequeueOutputBuffer Audio \<notin> set t2"
    using video_output_no_audio_dequeue [of r "video_out e" s1] vo by simp
  have video: "released_after_dequeue Video (deq_bufIndex (video_out e)) (?t0 @ t1 @ t2 @ u)"
    if "deq_status (video_out e) = NO_ERROR" for u
  proof -
    have "released_after_dequeue Video (deq_bufIndex (video_out e)) t2"
      using video_output_released vo r2 that by blast
    then have "released_after_dequeue Video (deq_bufIndex (video_out e)) (t2 @ u)"
      by (rule released_after_dequeue_append1)
    then have "released_after_dequeue Video (deq_bufIndex (video_out e)) (t1 @ t2 @ u)"
      using t1nd by (rule released_after_dequeue_append2)
    then show ?thesis
      using t0nd by (rule released_after_dequeue_append2)
  qed
  show ?thesis
  proof (cases r)
    case False
    with assms sc1 vo r2 sc2 have "t = ?t0 @ t1 @ t2 @ t3"
      by (simp add: iteration_def Let_def)
    with video [of t3] False show ?thesis by simp
  next
    case True
    obtain t4 r4 where ao: "audio_output (audio_out e) s3 = (t4, r4)"
      by (cases "audio_output (audio_out e) s3")
    with True assms sc1 vo r2 sc2 have t: "t = ?t0 @ t1 @ t2 @ t3 @ t4" and r4: "r4 = Inr s'"
      by (simp_all add: iteration_def Let_def)
    have audio: "released_after_dequeue Audio (deq_bufIndex (audio_out e)) t"
      if "deq_status (audio_out e) = NO_ERROR"
    proof -
      have "released_after_dequeue Audio (deq_bufIndex (audio_out e)) t4"
        using audio_output_released ao r4 that by blast
      then have "released_after_dequeue Audio (deq_bufIndex (audio_out e)) (t3 @ t4)"
        using t3nd by (rule released_after_dequeue_append2)
      then have "released_after_dequeue Audio (deq_bufIndex (audio_out e)) (t2 @ t3 @ t4)"
        using t2na by (rule released_after_dequeue_append2)
      then have "released_after_dequeue Audio (deq_bufIndex (audio_out e)) (t1 @ t2 @ t3 @ t4)"
        using t1nd by (rule released_after_dequeue_append2)
      then show ?thesis
        unfolding t using t0nd by (rule released_after_dequeue_append2)
    qed
    from video [of "t3 @ t4"] t audio True show ?thesis by simp
  qed
qed

theorem dequeued_buffers_released_witness:
  "released_after_dequeue Video 7
     [DequeueInputBuffer, DequeueOutputBuffer Video, ReleaseOutputBuffer Video 7,
      DequeueOutputBuffer Audio, ReleaseOutputBuffer Audio 4]
   \<and> released_after_dequeue Audio 4
     [DequeueInputBuffer, DequeueOutputBuffer Video, ReleaseOutputBuffer Video 7,
      DequeueOutputBuffer Audio, ReleaseOutputBuffer Audio 4]"
proof -
  have h: "iteration True
             (quiet_iter\<lparr>video_out := data_buffer 7 20 0 2, audio_out := data_buffer 4 0 0 4\<rparr>)
             initial_state
           = ([DequeueInputBuffer, DequeueOutputBuffer Video, ReleaseOutputBuffer Video 7,
               DequeueOutputBuffer Audio, ReleaseOutputBuffer Audio 4], Inr initial_state)"
    by code_simp
  have v: "deq_status (video_out (quiet_iter\<lparr>video_out := data_buffer 7 20 0 2,
             audio_out := data_buffer 4 0 0 4\<rparr>)) = NO_ERROR"
    by (simp add: data_buffer_def)
  have a: "deq_status (audio_out (quiet_iter\<lparr>video_out := data_buffer 7 20 0 2,
             audio_out := data_buffer 4 0 0 4\<rparr>)) = NO_ERROR"
    by (simp add: data_buffer_def)
  from dequeued_buffers_released [OF h] v a show ?thesis
    by (simp add: data_buffer_def)
qed

subsection \<open>The shape of a run: lemmas\<close>

lemma runEncoder_shape:
  "(fst (runEncoder cfg p es)
      \<in> {[GetOutputBuffers Video], [GetOutputBuffers Video, GetOutputBuffers Audio],
          [GetOutputBuffers Video, GetOutputBuffers Audio, GetInputBuffers],
          [GetOutputBuffers Video, GetOutputBuffers Audio, GetInputBuffers, RecorderInit]}
     \<and> (\<exists>err. snd (runEncoder cfg p es) = Returned err \<and> err \<noteq> NO_ERROR))
   \<or> runEncoder cfg p es
       = (setup_calls (gRecordAudio cfg)
            @ fst (loop (gRecordAudio cfg) (end_time cfg p) es initial_state),
          snd (loop (gRecordAudio cfg) (end_time cfg p) es initial_state))"
  by (simp add: runEncoder_def Let_def case_prod_beta setup_calls_def end_time_def)

subsection \<open>Audio timestamps\<close>

lemma sint_add_23219:
  fixes l :: int64
  assumes "sint l + 23219 < 2 ^ 63"
  shows "sint (l + 23219) = sint l + 23219"
proof -
  have "- (2 ^ 63) \<le> sint l"
    using sint_ge [of l] by simp
  then have "signed_take_bit 63 (sint l + 23219) = sint l + 23219"
    using assms by (intro signed_take_bit_int_eq_self) auto
  then show ?thesis
    by (simp add: sint_word_ariths)
qed

lemma audio_pts_ge:
  assumes "sint l + 23219 < 2 ^ 63"
  shows "sint l \<le> sint (audio_pts l p)"
  using sint_add_23219 [OF assms]
  by (auto simp: audio_pts_def Let_def word_sless_alt)

lemma audio_pts_le:
  assumes "sint l + 23219 < 2 ^ 63" and "sint p \<le> B" and "0 \<le> B"
  shows "sint (audio_pts l p) \<le> max B (sint l + 23219)"
  using sint_add_23219 [OF assms(1)] assms(2,3)
  by (auto simp: audio_pts_def Let_def word_sless_alt)

lemma timestamps_append: "timestamps st (t @ u) = timestamps st t @ timestamps st u"
  by (induction t) (auto split: event.splits)

lemma timestamps_signalCatcher: "timestamps st (fst (signalCatcher b s)) = []"
  by (simp add: signalCatcher_def)

lemma lastAudioPtsUs_signalCatcher: "lastAudioPtsUs (snd (signalCatcher b s)) = lastAudioPtsUs s"
  by (simp add: signalCatcher_def)

lemma timestamps_audio_input: "timestamps st (audio_input i) = []"
  by (simp add: audio_input_def)

lemma video_output_audio:
  "timestamps Audio (fst (video_output r e s)) = []
   \<and> (\<forall>s'. snd (video_output r e s) = Inr s' \<longrightarrow> lastAudioPtsUs s' = lastAudioPtsUs s)"
  by (auto simp: video_output_def Let_def)

lemma audio_output_audio:
  "(timestamps Audio (fst (audio_output e s)) = []
      \<and> (\<forall>s'. snd (audio_output e s) = Inr s' \<longrightarrow> lastAudioPtsUs s' = lastAudioPtsUs s))
   \<or> (timestamps Audio (fst (audio_output e s)) = [audio_pts (lastAudioPtsUs s) (deq_pts e)]
      \<and> (\<forall>s'. snd (audio_output e s) = Inr s' \<longrightarrow>
            lastAudioPtsUs s' = audio_pts (lastAudioPtsUs s) (deq_pts e)))"
  by (auto simp: audio_output_def Let_def)

lemma iteration_audio:
  "(timestamps Audio (fst (iteration r e s)) = []
      \<and> (\<forall>s'. snd (iteration r e s) = Inr s' \<longrightarrow> lastAudioPtsUs s' = lastAudioPtsUs s))
   \<or> (timestamps Audio (fst (iteration r e s))
        = [audio_pts (lastAudioPtsUs s) (deq_pts (audio_out e))]
      \<and> (\<forall>s'. snd (iteration r e s) = Inr s' \<longrightarrow>
            lastAudioPtsUs s' = audio_pts (lastAudioPtsUs s) (deq_pts (audio_out e))))"
proof -
  obtain t1 s1 where sc1: "signalCatcher (sig_before_video e) s = (t1, s1)"
    by (cases "signalCatcher (sig_before_video e) s")
  obtain t2 r2 where vo: "video_output r (video_out e) s1 = (t2, r2)"
    by (cases "video_output r (video_out e) s1")
  have l1: "lastAudioPtsUs s1 = lastAudioPtsUs s" and ts1: "timestamps Audio t1 = []"
    using lastAudioPtsUs_signalCatcher [of "sig_before_video e" s]
      timestamps_signalCatcher [of Audio "sig_before_video e" s] sc1 by simp_all
  have ts2: "timestamps Audio t2 = []"
    using video_output_audio [of r "video_out e" s1] vo by simp
  show ?thesis
  proof (cases r2)
    case (Inl f)
    with sc1 vo ts1 ts2 show ?thesis
      by (simp add: iteration_def Let_def timestamps_append timestamps_audio_input)
  next
    case (Inr s2)
    have l2: "lastAudioPtsUs s2 = lastAudioPtsUs s"
      using video_output_audio [of r "video_out e" s1] vo Inr l1 by simp
    obtain t3 s3 where sc2: "signalCatcher (sig_before_audio e) s2 = (t3, s3)"
      by (cases "signalCatcher (sig_before_audio e) s2")
    have l3: "lastAudioPtsUs s3 = lastAudioPtsUs s" and ts3: "timestamps Audio t3 = []"
      using lastAudioPtsUs_signalCatcher [of "sig_before_audio e" s2]
        timestamps_signalCatcher [of Audio "sig_before_audio e" s2] sc2 l2 by simp_all
    show ?thesis
    proof (cases r)
      case False
      with sc1 vo Inr sc2 ts1 ts2 ts3 l3 show ?thesis
        by (simp add: iteration_def Let_def timestamps_append)
    next
      case True
      obtain t4 r4 where ao: "audio_output (audio_out e) s3 = (t4, r4)"
        by (cases "audio_output (audio_out e) s3")
      from True sc1 vo Inr sc2 ao
      have it: "iteration r e s = (audio_input (audio_in e) @ t1 @ t2 @ t3 @ t4, r4)"
        by (simp add: iteration_def Let_def)
      have "timestamps Audio (fst (iteration r e s)) = timestamps Audio t4"
        by (simp add: it timestamps_append timestamps_audio_input ts1 ts2 ts3)
      with audio_output_audio [of "audio_out e" s3] ao l3 it show ?thesis
        by auto
    qed
  qed
qed

lemma loop_audio_sorted:
  assumes "\<forall>e\<in>set es. sint (deq_pts (audio_out e)) \<le> B" and "0 \<le> B"
    and "sint (lastAudioPtsUs s) \<le> B + 23219 * k"
    and "B + 23219 * (k + int (length es)) < 2 ^ 63" and "0 \<le> k"
  shows "sorted (map sint (timestamps Audio (fst (loop r w es s))))
       \<and> (\<forall>p\<in>set (timestamps Audio (fst (loop r w es s))). sint (lastAudioPtsUs s) \<le> sint p)"
  using assms
proof (induction es arbitrary: s k)
  case Nil
  then show ?case by simp
next
  case (Cons e es)
  obtain t0 s0 where sc0: "signalCatcher (sig_before_test e) s = (t0, s0)"
    by (cases "signalCatcher (sig_before_test e) s")
  have l0: "lastAudioPtsUs s0 = lastAudioPtsUs s" and ts0: "timestamps Audio t0 = []"
    using lastAudioPtsUs_signalCatcher [of "sig_before_test e" s]
      timestamps_signalCatcher [of Audio "sig_before_test e" s] sc0 by simp_all
  have tsx: "timestamps Audio (loop_exit r) = []"
    by (simp add: loop_exit_def)
  obtain t1 r1 where it: "iteration r e s0 = (t1, r1)"
    by (cases "iteration r e s0")
  let ?l = "lastAudioPtsUs s"
  let ?p = "audio_pts ?l (deq_pts (audio_out e))"
  have noov: "sint ?l + 23219 < 2 ^ 63"
    using Cons.prems by simp
  have ge: "sint ?l \<le> sint ?p"
    using noov by (rule audio_pts_ge)
  have le: "sint ?p \<le> B + 23219 * (k + 1)"
    using audio_pts_le [OF noov, of "deq_pts (audio_out e)" B] Cons.prems by simp
  have t1cases: "timestamps Audio t1 = [] \<or> timestamps Audio t1 = [?p]"
    using iteration_audio [of r e s0] it l0 by auto
  show ?case
  proof (cases "gStopRequested s0 \<or> w <s now_test e")
    case True
    with sc0 ts0 tsx show ?thesis
      by (auto simp: timestamps_append)
  next
    case False
    show ?thesis
    proof (cases r1)
      case (Inl f)
      with False sc0 it have "timestamps Audio (fst (loop r w (e # es) s)) = timestamps Audio t1"
        by (cases f) (simp_all add: timestamps_append ts0)
      with t1cases ge show ?thesis by auto
    next
      case (Inr s1)
      have l1: "(timestamps Audio t1 = [] \<and> lastAudioPtsUs s1 = ?l)
              \<or> (timestamps Audio t1 = [?p] \<and> lastAudioPtsUs s1 = ?p)"
        using iteration_audio [of r e s0] it l0 Inr by auto
      then have b1: "sint (lastAudioPtsUs s1) \<le> B + 23219 * (k + 1)"
        using le Cons.prems(3) by auto
      have ge1: "sint ?l \<le> sint (lastAudioPtsUs s1)"
        using l1 ge by auto
      have IH: "sorted (map sint (timestamps Audio (fst (loop r w es s1))))
          \<and> (\<forall>p\<in>set (timestamps Audio (fst (loop r w es s1))). sint (lastAudioPtsUs s1) \<le> sint p)"
        using Cons.prems by (intro Cons.IH [of s1 "k + 1"] b1) (auto simp: algebra_simps)
      from False sc0 it Inr
      have eq: "timestamps Audio (fst (loop r w (e # es) s))
              = timestamps Audio t1 @ timestamps Audio (fst (loop r w es s1))"
        by (simp add: timestamps_append ts0 case_prod_beta)
      from l1 show ?thesis
      proof
        assume "timestamps Audio t1 = [] \<and> lastAudioPtsUs s1 = ?l"
        with eq IH show ?thesis by simp
      next
        assume "timestamps Audio t1 = [?p] \<and> lastAudioPtsUs s1 = ?p"
        with eq IH ge show ?thesis by auto
      qed
    qed
  qed
qed

text \<open>
  Claim C3, as amended.  The audio timestamps passed to \<^verbatim>\<open>writeSampleData\<close> are
  non-decreasing over the whole session, for every sequence of reported timestamps (zero,
  negative and decreasing ones included) that leaves room for the substitutions: every
  reported timestamp is at most \<open>B\<close>, and \<open>B\<close> plus 23219 times the number of
  iterations stays within the signed 64-bit range.  Without such a bound the addition
  \<^verbatim>\<open>lastAudioPtsUs + 23219\<close> can leave the range, as the run after the witness shows.
\<close>

theorem audio_timestamps_sorted:
  assumes "\<forall>e\<in>set es. sint (deq_pts (audio_out e)) \<le> B" and "0 \<le> B"
    and "B + 23219 * int (length es) < 2 ^ 63"
  shows "sorted (map sint (timestamps Audio (fst (runEncoder cfg p es))))"
proof -
  have "sorted (map sint (timestamps Audio
          (fst (loop (gRecordAudio cfg) (end_time cfg p) es initial_state))))"
    using loop_audio_sorted [of es B initial_state 0 "gRecordAudio cfg" "end_time cfg p"] assms
    by (simp add: initial_state_def)
  with runEncoder_shape [of cfg p es] show ?thesis
    by (auto simp: timestamps_append setup_calls_def)
qed

theorem audio_timestamps_sorted_witness:
  "list_all (\<lambda>e. sint (deq_pts (audio_out e)) \<le> 100) scenario_D
   \<and> 100 + 23219 * int (length scenario_D) < 2 ^ 63
   \<and> sorted (map sint (timestamps Audio (fst (runEncoder with_audio pre_ok scenario_D))))"
proof -
  have h: "\<forall>e\<in>set scenario_D. sint (deq_pts (audio_out e)) \<le> 100"
    by (simp add: scenario_D_def both_formats_def audio_iter_def quiet_iter_def data_buffer_def
        format_changed_def quiet_out_def)
  have b: "100 + 23219 * int (length scenario_D) < 2 ^ 63"
    by (simp add: scenario_D_def)
  from audio_timestamps_sorted [OF h _ b, of with_audio pre_ok] h b show ?thesis
    by (simp add: list_all_iff)
qed

text \<open>
  Claim C3 as stated fails where the addition overflows: the reported timestamps
  \<open>2\<^sup>6\<^sup>3 - 1\<close> and \<open>0\<close> are written as \<open>2\<^sup>6\<^sup>3 - 1\<close> and, after the wrap-around, as
  \<open>- 2\<^sup>6\<^sup>3 + 23218\<close>.
\<close>

theorem audio_timestamps_overflow:
  "\<not> sorted (map sint (timestamps Audio (fst (runEncoder with_audio pre_ok overflow_session))))"
  by code_simp







subsection \<open>Samples and the start of the muxer\<close>

text \<open>The labels of the \<^verbatim>\<open>switch\<close> are pairwise different.\<close>

lemma status_distinct [simp]:
  "NO_ERROR \<noteq> MINUS_EAGAIN" "NO_ERROR \<noteq> INFO_FORMAT_CHANGED"
  "NO_ERROR \<noteq> INFO_OUTPUT_BUFFERS_CHANGED" "NO_ERROR \<noteq> INVALID_OPERATION"
  "MINUS_EAGAIN \<noteq> NO_ERROR" "MINUS_EAGAIN \<noteq> INFO_FORMAT_CHANGED"
  "MINUS_EAGAIN \<noteq> INFO_OUTPUT_BUFFERS_CHANGED" "MINUS_EAGAIN \<noteq> INVALID_OPERATION"
  "INFO_FORMAT_CHANGED \<noteq> NO_ERROR" "INFO_FORMAT_CHANGED \<noteq> MINUS_EAGAIN"
  "INFO_FORMAT_CHANGED \<noteq> INFO_OUTPUT_BUFFERS_CHANGED"
  "INFO_FORMAT_CHANGED \<noteq> INVALID_OPERATION"
  "INFO_OUTPUT_BUFFERS_CHANGED \<noteq> NO_ERROR" "INFO_OUTPUT_BUFFERS_CHANGED \<noteq> MINUS_EAGAIN"
  "INFO_OUTPUT_BUFFERS_CHANGED \<noteq> INFO_FORMAT_CHANGED"
  "INFO_OUTPUT_BUFFERS_CHANGED \<noteq> INVALID_OPERATION"
  "INVALID_OPERATION \<noteq> NO_ERROR" "INVALID_OPERATION \<noteq> MINUS_EAGAIN"
  "INVALID_OPERATION \<noteq> INFO_FORMAT_CHANGED"
  "INVALID_OPERATION \<noteq> INFO_OUTPUT_BUFFERS_CHANGED"
  by (simp_all add: NO_ERROR_def MINUS_EAGAIN_def INFO_FORMAT_CHANGED_def
      INFO_OUTPUT_BUFFERS_CHANGED_def INVALID_OPERATION_def)

lemma no_write_before_start_append:
  "no_write_before_start (t @ u)
     = (no_write_before_start t \<and> (MuxerStart \<in> set t \<or> no_write_before_start u))"
  by (induction t) (auto split: event.splits)

lemma unregistered_signalCatcher:
  "unregistered s \<Longrightarrow> unregistered (snd (signalCatcher b s))"
  by (simp add: signalCatcher_def unregistered_def)

lemma signalCatcher_trace: "fst (signalCatcher b s) = [] \<or> fst (signalCatcher b s) = [SignalCaught]"
  by (simp add: signalCatcher_def)

lemma video_only_output_start:
  assumes "unregistered s"
  shows "no_write_before_start (fst (video_output False e s))
       \<and> (MuxerStart \<in> set (fst (video_output False e s))
          \<or> (\<forall>s'. snd (video_output False e s) = Inr s' \<longrightarrow> unregistered s'))"
  using assms by (auto simp: video_output_def Let_def unregistered_def)

lemma video_only_iteration_start:
  assumes "unregistered s"
  shows "no_write_before_start (fst (iteration False e s))
       \<and> (MuxerStart \<in> set (fst (iteration False e s))
          \<or> (\<forall>s'. snd (iteration False e s) = Inr s' \<longrightarrow> unregistered s'))"
proof -
  obtain t1 s1 where sc1: "signalCatcher (sig_before_video e) s = (t1, s1)"
    by (cases "signalCatcher (sig_before_video e) s")
  then have s1: "unregistered s1" and t1: "t1 = [] \<or> t1 = [SignalCaught]"
    using unregistered_signalCatcher [OF assms, of "sig_before_video e"]
      signalCatcher_trace [of "sig_before_video e" s] by simp_all
  obtain t2 r2 where vo: "video_output False (video_out e) s1 = (t2, r2)"
    by (cases "video_output False (video_out e) s1")
  note v = video_only_output_start [OF s1, of "video_out e"]
  show ?thesis
  proof (cases r2)
    case (Inl f)
    with sc1 vo v t1 show ?thesis
      by (auto simp: iteration_def Let_def no_write_before_start_append)
  next
    case (Inr s2)
    obtain t3 s3 where sc2: "signalCatcher (sig_before_audio e) s2 = (t3, s3)"
      by (cases "signalCatcher (sig_before_audio e) s2")
    then have s3: "unregistered s2 \<longrightarrow> unregistered s3" and t3: "t3 = [] \<or> t3 = [SignalCaught]"
      using unregistered_signalCatcher [of s2 "sig_before_audio e"]
        signalCatcher_trace [of "sig_before_audio e" s2] by auto
    from sc1 vo Inr sc2 have "iteration False e s = (t1 @ t2 @ t3, Inr s3)"
      by (simp add: iteration_def Let_def)
    with v vo Inr t1 t3 s3 show ?thesis
      by (auto simp: no_write_before_start_append)
  qed
qed

lemma video_only_loop_start:
  "unregistered s \<Longrightarrow> no_write_before_start (fst (loop False w es s))"
proof (induction es arbitrary: s)
  case Nil
  then show ?case by simp
next
  case (Cons e es)
  obtain t0 s0 where sc0: "signalCatcher (sig_before_test e) s = (t0, s0)"
    by (cases "signalCatcher (sig_before_test e) s")
  then have s0: "unregistered s0" and t0: "t0 = [] \<or> t0 = [SignalCaught]"
    using unregistered_signalCatcher [OF Cons.prems, of "sig_before_test e"]
      signalCatcher_trace [of "sig_before_test e" s] by simp_all
  obtain t1 r1 where it: "iteration False e s0 = (t1, r1)"
    by (cases "iteration False e s0")
  note i = video_only_iteration_start [OF s0, of e]
  show ?case
  proof (cases "gStopRequested s0 \<or> w <s now_test e")
    case True
    with sc0 t0 show ?thesis
      by (auto simp: loop_exit_def)
  next
    case False
    show ?thesis
    proof (cases r1)
      case (Inl f)
      with False sc0 it i t0 show ?thesis
        by (cases f) (auto simp: no_write_before_start_append)
    next
      case (Inr s1)
      with False sc0 it
      have eq: "fst (loop False w (e # es) s) = t0 @ t1 @ fst (loop False w es s1)"
        by (simp add: case_prod_beta)
      from i it Inr have "MuxerStart \<in> set t1 \<or> no_write_before_start (fst (loop False w es s1))"
        using Cons.IH [of s1] by auto
      with eq i it t0 show ?thesis
        by (auto simp: no_write_before_start_append)
    qed
  qed
qed

text \<open>
  Without audio the first sample is written after the muxer has been started: the only
  assignment to \<^verbatim>\<open>videoTrackIdx\<close> is followed by \<^verbatim>\<open>muxer->start()\<close>.
\<close>

lemma video_only_no_write_before_start:
  assumes "\<not> gRecordAudio cfg"
  shows "no_write_before_start (fst (runEncoder cfg p es))"
  using runEncoder_shape [of cfg p es] assms
    video_only_loop_start [of initial_state "end_time cfg p" es]
  by (auto simp: setup_calls_def initial_state_def unregistered_def no_write_before_start_append)

text \<open>
  Claim C1.  With audio the claim fails on the code: the video encoder gives its format
  in the first iteration (one track of two, so the muxer is not started) and a frame in
  the second, and the frame is passed to \<^verbatim>\<open>writeSampleData\<close> although
  \<^verbatim>\<open>muxer->start()\<close> has not been called.  The \<^verbatim>\<open>CHECK\<close> of line 485 only
  asks for the video track.
\<close>

theorem write_before_start:
  "fst (runEncoder with_audio pre_ok early_video_session)
     = [GetOutputBuffers Video, GetOutputBuffers Audio, GetInputBuffers, RecorderInit,
        RecorderStart,
        DequeueInputBuffer, DequeueOutputBuffer Video, GetOutputFormat Video, AddTrack Video,
        DequeueOutputBuffer Audio,
        DequeueInputBuffer, DequeueOutputBuffer Video, WriteSampleData Video 0 3 5 1,
        ReleaseOutputBuffer Video 3, DequeueOutputBuffer Audio]
   \<and> \<not> no_write_before_start (fst (runEncoder with_audio pre_ok early_video_session))"
  by code_simp

subsection \<open>The start of the muxer\<close>

lemma added_tracks_append: "added_tracks (t @ u) = added_tracks t + added_tracks u"
  by (induction t) (auto split: event.splits)

lemma start_discipline_append:
  "start_discipline ex n t \<Longrightarrow> start_discipline ex (n + added_tracks t) u \<Longrightarrow>
     start_discipline ex n (t @ u)"
proof (induction ex n t rule: start_discipline.induct)
  case (1 ex n)
  then show ?case by simp
next
  case (2 ex n x t)
  show ?case
  proof (cases x)
    case (AddTrack st)
    show ?thesis
    proof (cases "Suc n = ex")
      case True
      with 2 AddTrack show ?thesis
        by (cases t) auto
    next
      case False
      with 2 AddTrack show ?thesis by simp
    qed
  qed (use 2 in simp_all)
qed

lemma start_discipline_count:
  "start_discipline ex n t \<Longrightarrow>
     count_list t MuxerStart = (if n < ex \<and> ex \<le> n + added_tracks t then 1 else 0)"
proof (induction ex n t rule: start_discipline.induct)
  case (1 ex n)
  then show ?case by simp
next
  case (2 ex n x t)
  show ?case
  proof (cases x)
    case (AddTrack st)
    show ?thesis
    proof (cases "Suc n = ex")
      case True
      with 2 AddTrack show ?thesis
        by (cases t) auto
    next
      case False
      with 2 AddTrack show ?thesis by auto
    qed
  qed (use 2 in simp_all)
qed

lemma start_discipline_other:
  assumes "MuxerStart \<notin> set t" and "\<And>st. AddTrack st \<notin> set t"
  shows "start_discipline ex n t" and "added_tracks t = 0"
  using assms by (induction t) (auto split: event.splits)

lemma small_word:
  fixes x :: uint32
  assumes "unat x < 2"
  shows "x = 0 \<or> x = 1"
proof -
  from assms have "unat x = 0 \<or> unat x = 1" by auto
  then show ?thesis
    by (auto simp: word_unat_eq_iff)
qed


lemma video_output_format_changed:
  assumes "deq_status e = INFO_FORMAT_CHANGED"
  shows "video_output r e s =
     (if (if r then 2 else 1) \<le> tracksAdded s + 1 then
        ([DequeueOutputBuffer Video, GetOutputFormat Video, AddTrack Video, MuxerStart],
         if start_status e \<noteq> NO_ERROR then Inl (Failed (start_status e))
         else Inr (s\<lparr>videoTrackIdx := addTrack_ret e, tracksAdded := tracksAdded s + 1\<rparr>))
      else ([DequeueOutputBuffer Video, GetOutputFormat Video, AddTrack Video],
            Inr (s\<lparr>videoTrackIdx := addTrack_ret e, tracksAdded := tracksAdded s + 1\<rparr>)))"
  using assms by (simp add: video_output_def Let_def)

lemma video_output_other:
  assumes "deq_status e \<noteq> INFO_FORMAT_CHANGED"
  shows "MuxerStart \<notin> set (fst (video_output r e s))"
    and "AddTrack st \<notin> set (fst (video_output r e s))"
    and "snd (video_output r e s) = Inr s' \<Longrightarrow> tracksAdded s' = tracksAdded s"
  using assms by (auto simp: video_output_def Let_def split: if_splits)

lemma audio_output_format_changed:
  assumes "deq_status e = INFO_FORMAT_CHANGED"
  shows "audio_output e s =
     (if 2 \<le> tracksAdded s + 1 then
        ([DequeueOutputBuffer Audio, GetOutputFormat Audio, AddTrack Audio, MuxerStart],
         if start_status e \<noteq> NO_ERROR then Inl (Failed (start_status e))
         else Inr (s\<lparr>audioTrackIdx := addTrack_ret e, tracksAdded := tracksAdded s + 1\<rparr>))
      else ([DequeueOutputBuffer Audio, GetOutputFormat Audio, AddTrack Audio],
            Inr (s\<lparr>audioTrackIdx := addTrack_ret e, tracksAdded := tracksAdded s + 1\<rparr>)))"
  using assms by (simp add: audio_output_def Let_def)

lemma audio_output_other:
  assumes "deq_status e \<noteq> INFO_FORMAT_CHANGED"
  shows "MuxerStart \<notin> set (fst (audio_output e s))"
    and "AddTrack st \<notin> set (fst (audio_output e s))"
    and "snd (audio_output e s) = Inr s' \<Longrightarrow> tracksAdded s' = tracksAdded s"
  using assms by (auto simp: audio_output_def Let_def split: if_splits)

lemma video_output_start:
  assumes "unat (tracksAdded s) = n"
    and "deq_status e = INFO_FORMAT_CHANGED \<longrightarrow> n < (if r then 2 else 1)"
  shows "start_discipline (if r then 2 else 1) n (fst (video_output r e s))
       \<and> added_tracks (fst (video_output r e s))
           = (if deq_status e = INFO_FORMAT_CHANGED then 1 else 0)
       \<and> (\<forall>s'. snd (video_output r e s) = Inr s' \<longrightarrow>
             unat (tracksAdded s') = n + added_tracks (fst (video_output r e s)))"
proof (cases "deq_status e = INFO_FORMAT_CHANGED")
  case True
  with assms have "tracksAdded s = 0 \<or> tracksAdded s = 1"
    by (intro small_word) (auto split: if_splits)
  then show ?thesis
  proof
    assume "tracksAdded s = 0"
    with True assms show ?thesis
      by (simp add: video_output_format_changed word_le_nat_alt)
  next
    assume "tracksAdded s = 1"
    with True assms show ?thesis
      by (simp add: video_output_format_changed word_le_nat_alt split: if_splits)
  qed
next
  case False
  note o = video_output_other [OF False, where r = r and s = s]
  from o(1,2) have "start_discipline (if r then 2 else 1) n (fst (video_output r e s))"
    and "added_tracks (fst (video_output r e s)) = 0"
    by (rule start_discipline_other)+
  with False o(3) assms(1) show ?thesis by auto
qed

lemma audio_output_start:
  assumes "unat (tracksAdded s) = n"
    and "deq_status e = INFO_FORMAT_CHANGED \<longrightarrow> n < 2"
  shows "start_discipline 2 n (fst (audio_output e s))
       \<and> added_tracks (fst (audio_output e s))
           = (if deq_status e = INFO_FORMAT_CHANGED then 1 else 0)
       \<and> (\<forall>s'. snd (audio_output e s) = Inr s' \<longrightarrow>
             unat (tracksAdded s') = n + added_tracks (fst (audio_output e s)))"
proof (cases "deq_status e = INFO_FORMAT_CHANGED")
  case True
  with assms have "tracksAdded s = 0 \<or> tracksAdded s = 1"
    by (intro small_word) (auto split: if_splits)
  then show ?thesis
  proof
    assume "tracksAdded s = 0"
    with True assms show ?thesis
      by (simp add: audio_output_format_changed word_le_nat_alt)
  next
    assume "tracksAdded s = 1"
    with True assms show ?thesis
      by (simp add: audio_output_format_changed word_le_nat_alt split: if_splits)
  qed
next
  case False
  note o = audio_output_other [OF False, where s = s]
  from o(1,2) have "start_discipline 2 n (fst (audio_output e s))"
    and "added_tracks (fst (audio_output e s)) = 0"
    by (rule start_discipline_other)+
  with False o(3) assms(1) show ?thesis by auto
qed

lemma start_discipline_skip:
  assumes "MuxerStart \<notin> set t" and "\<And>st. AddTrack st \<notin> set t"
  shows "start_discipline ex n (t @ u) = start_discipline ex n u"
    and "added_tracks (t @ u) = added_tracks u"
  using assms by (induction t) (auto split: event.splits)

lemma signalCatcher_quiet:
  "MuxerStart \<notin> set (fst (signalCatcher b s))"
  "AddTrack st \<notin> set (fst (signalCatcher b s))"
  "tracksAdded (snd (signalCatcher b s)) = tracksAdded s"
  by (simp_all add: signalCatcher_def)

lemma audio_input_quiet:
  "MuxerStart \<notin> set (audio_input i)" "AddTrack st \<notin> set (audio_input i)"
  by (simp_all add: audio_input_def)

lemma iteration_start:
  assumes n: "unat (tracksAdded s) = n"
    and le: "n + format_changes r e \<le> (if r then 2 else 1)"
  shows "start_discipline (if r then 2 else 1) n (fst (iteration r e s))
       \<and> added_tracks (fst (iteration r e s)) \<le> format_changes r e
       \<and> (\<forall>s'. snd (iteration r e s) = Inr s' \<longrightarrow>
             unat (tracksAdded s') = n + added_tracks (fst (iteration r e s)))"
proof -
  let ?ex = "if r then 2 else 1 :: nat"
  let ?t0 = "if r then audio_input (audio_in e) else []"
  have q0: "MuxerStart \<notin> set ?t0" "\<And>st. AddTrack st \<notin> set ?t0"
    by (simp_all add: audio_input_quiet)
  obtain t1 s1 where sc1: "signalCatcher (sig_before_video e) s = (t1, s1)"
    by (cases "signalCatcher (sig_before_video e) s")
  have q1: "MuxerStart \<notin> set t1" "\<And>st. AddTrack st \<notin> set t1"
    and n1: "unat (tracksAdded s1) = n"
    using signalCatcher_quiet [where b = "sig_before_video e" and s = s] sc1 n by simp_all
  obtain t2 r2 where vo: "video_output r (video_out e) s1 = (t2, r2)"
    by (cases "video_output r (video_out e) s1")
  have "deq_status (video_out e) = INFO_FORMAT_CHANGED \<longrightarrow> n < ?ex"
    using le by (auto simp: format_changes_def split: if_splits)
  from video_output_start [OF n1 this] vo
  have v: "start_discipline ?ex n t2"
    "added_tracks t2 = (if deq_status (video_out e) = INFO_FORMAT_CHANGED then 1 else 0)"
    "\<And>s'. r2 = Inr s' \<Longrightarrow> unat (tracksAdded s') = n + added_tracks t2"
    by simp_all
  show ?thesis
  proof (cases r2)
    case (Inl f)
    with sc1 vo have it: "iteration r e s = (?t0 @ t1 @ t2, Inl f)"
      by (simp add: iteration_def Let_def)
    show ?thesis
      unfolding it using v(1,2)
      by (simp add: start_discipline_skip [OF q0] start_discipline_skip [OF q1]
          format_changes_def del: append_assoc)
  next
    case (Inr s2)
    note n2 = v(3) [OF Inr]
    obtain t3 s3 where sc2: "signalCatcher (sig_before_audio e) s2 = (t3, s3)"
      by (cases "signalCatcher (sig_before_audio e) s2")
    have q3: "MuxerStart \<notin> set t3" "\<And>st. AddTrack st \<notin> set t3"
      and n3: "unat (tracksAdded s3) = n + added_tracks t2"
      using signalCatcher_quiet [where b = "sig_before_audio e" and s = s2] sc2 n2 by simp_all
    show ?thesis
    proof (cases r)
      case False
      with sc1 vo Inr sc2 have it: "iteration r e s = (t1 @ t2 @ t3, Inr s3)"
        by (simp add: iteration_def Let_def)
      have "start_discipline ?ex n (t2 @ t3)"
        using v(1) by (rule start_discipline_append) (rule start_discipline_other [OF q3])
      moreover have "added_tracks (t2 @ t3) = added_tracks t2"
        by (simp add: added_tracks_append start_discipline_other [OF q3])
      ultimately show ?thesis
        unfolding it using v(2) n3 False
        by (simp add: start_discipline_skip [OF q1] format_changes_def)
    next
      case True
      obtain t4 r4 where ao: "audio_output (audio_out e) s3 = (t4, r4)"
        by (cases "audio_output (audio_out e) s3")
      from True sc1 vo Inr sc2 ao
      have it: "iteration r e s = (audio_input (audio_in e) @ t1 @ t2 @ t3 @ t4, r4)"
        by (simp add: iteration_def Let_def)
      have "deq_status (audio_out e) = INFO_FORMAT_CHANGED \<longrightarrow> n + added_tracks t2 < 2"
        using le True v(2) by (auto simp: format_changes_def split: if_splits)
      from audio_output_start [OF n3 this] ao
      have a: "start_discipline 2 (n + added_tracks t2) t4"
        "added_tracks t4 = (if deq_status (audio_out e) = INFO_FORMAT_CHANGED then 1 else 0)"
        "\<And>s'. r4 = Inr s' \<Longrightarrow> unat (tracksAdded s') = n + added_tracks t2 + added_tracks t4"
        by simp_all
      have rest: "start_discipline 2 (n + added_tracks t2) (t3 @ t4)"
        using a(1) by (simp add: start_discipline_skip [OF q3])
      from v(1) True have "start_discipline 2 n t2"
        by simp
      then have d: "start_discipline 2 n (t2 @ t3 @ t4)"
        using rest by (rule start_discipline_append)
      have c: "added_tracks (t2 @ t3 @ t4) = added_tracks t2 + added_tracks t4"
        by (simp add: added_tracks_append start_discipline_other [OF q3])
      from q0 True have q0': "MuxerStart \<notin> set (audio_input (audio_in e))"
        "\<And>st. AddTrack st \<notin> set (audio_input (audio_in e))"
        by (simp_all add: audio_input_quiet)
      show ?thesis
        unfolding it using d c v(2) a(2,3) True
        by (simp add: start_discipline_skip [OF q0'] start_discipline_skip [OF q1]
            format_changes_def)
    qed
  qed
qed

lemma loop_start:
  assumes "unat (tracksAdded s) = n"
    and "n + sum_list (map (format_changes r) es) \<le> (if r then 2 else 1)"
  shows "start_discipline (if r then 2 else 1) n (fst (loop r w es s))"
  using assms
proof (induction es arbitrary: s n)
  case Nil
  then show ?case by simp
next
  case (Cons e es)
  let ?ex = "if r then 2 else 1 :: nat"
  obtain t0 s0 where sc0: "signalCatcher (sig_before_test e) s = (t0, s0)"
    by (cases "signalCatcher (sig_before_test e) s")
  have q0: "MuxerStart \<notin> set t0" "\<And>st. AddTrack st \<notin> set t0"
    and n0: "unat (tracksAdded s0) = n"
    using signalCatcher_quiet [where b = "sig_before_test e" and s = s] sc0 Cons.prems(1)
    by simp_all
  obtain t1 r1 where it: "iteration r e s0 = (t1, r1)"
    by (cases "iteration r e s0")
  have "n + format_changes r e \<le> ?ex"
    using Cons.prems(2) by simp
  from iteration_start [OF n0 this] it
  have i: "start_discipline ?ex n t1" "added_tracks t1 \<le> format_changes r e"
    "\<And>s'. r1 = Inr s' \<Longrightarrow> unat (tracksAdded s') = n + added_tracks t1"
    by simp_all
  show ?case
  proof (cases "gStopRequested s0 \<or> w <s now_test e")
    case True
    with sc0 have "fst (loop r w (e # es) s) = t0 @ loop_exit r"
      by auto
    moreover have "start_discipline ?ex n (loop_exit r)"
      by (rule start_discipline_other) (simp_all add: loop_exit_def)
    ultimately show ?thesis
      by (simp add: start_discipline_skip [OF q0])
  next
    case False
    show ?thesis
    proof (cases r1)
      case (Inl f)
      with False sc0 it have "fst (loop r w (e # es) s) = t0 @ t1"
        by (cases f) simp_all
      with i(1) show ?thesis
        by (simp add: start_discipline_skip [OF q0])
    next
      case (Inr s1)
      with False sc0 it
      have eq: "fst (loop r w (e # es) s) = t0 @ t1 @ fst (loop r w es s1)"
        by (simp add: case_prod_beta)
      have "n + added_tracks t1 + sum_list (map (format_changes r) es) \<le> ?ex"
        using Cons.prems(2) i(2) by simp
      from Cons.IH [OF i(3) [OF Inr] this]
      have "start_discipline ?ex (n + added_tracks t1) (fst (loop r w es s1))" .
      with i(1) have "start_discipline ?ex n (t1 @ fst (loop r w es s1))"
        by (rule start_discipline_append)
      then show ?thesis
        unfolding eq by (simp add: start_discipline_skip [OF q0])
    qed
  qed
qed

lemma format_changes_sum:
  "sum_list (map (format_changes r) es)
     \<le> length (filter (\<lambda>e. deq_status (video_out e) = INFO_FORMAT_CHANGED) es)
       + length (filter (\<lambda>e. deq_status (audio_out e) = INFO_FORMAT_CHANGED) es)"
  by (induction es) (auto simp: format_changes_def)

lemma format_changes_sum_video:
  "sum_list (map (format_changes False) es)
     = length (filter (\<lambda>e. deq_status (video_out e) = INFO_FORMAT_CHANGED) es)"
  by (induction es) (auto simp: format_changes_def)

lemma runEncoder_start:
  assumes "length (filter (\<lambda>e. deq_status (video_out e) = INFO_FORMAT_CHANGED) es) \<le> 1"
    and "length (filter (\<lambda>e. deq_status (audio_out e) = INFO_FORMAT_CHANGED) es) \<le> 1"
  shows "start_discipline (expected_tracks cfg) 0 (fst (runEncoder cfg p es))"
proof -
  let ?r = "gRecordAudio cfg"
  have ex: "expected_tracks cfg = (if ?r then 2 else 1)"
    by (simp add: expected_tracks_def)
  have "sum_list (map (format_changes ?r) es) \<le> (if ?r then 2 else 1)"
    using format_changes_sum [of ?r es] format_changes_sum_video [of es] assms
    by (cases ?r) auto
  then have "start_discipline (if ?r then 2 else 1) 0
      (fst (loop ?r (end_time cfg p) es initial_state))"
    by (intro loop_start) (simp_all add: initial_state_def)
  moreover have "start_discipline (if ?r then 2 else 1) 0 (setup_calls ?r @ u)
      = start_discipline (if ?r then 2 else 1) 0 u" for u
    by (rule start_discipline_skip) (simp_all add: setup_calls_def)
  ultimately show ?thesis
    using runEncoder_shape [of cfg p es] unfolding ex
    by (auto simp: start_discipline_other)
qed

text \<open>
  Claim C2, as amended.  In every session in which each encoder reports
  \<^verbatim>\<open>INFO_FORMAT_CHANGED\<close> at most once, \<^verbatim>\<open>muxer->start()\<close> is called right after
  the \<^verbatim>\<open>addTrack\<close> that makes the number of tracks equal to the expected one (1 without
  audio, 2 with audio) and nowhere else: once if that number is reached, never otherwise,
  whichever format becomes known first.
\<close>

theorem muxer_started_once:
  assumes "length (filter (\<lambda>e. deq_status (video_out e) = INFO_FORMAT_CHANGED) es) \<le> 1"
    and "length (filter (\<lambda>e. deq_status (audio_out e) = INFO_FORMAT_CHANGED) es) \<le> 1"
  shows "start_discipline (expected_tracks cfg) 0 (fst (runEncoder cfg p es))
       \<and> count_list (fst (runEncoder cfg p es)) MuxerStart
           = (if expected_tracks cfg \<le> added_tracks (fst (runEncoder cfg p es)) then 1 else 0)"
  using runEncoder_start [OF assms, of cfg p]
    start_discipline_count [of "expected_tracks cfg" 0 "fst (runEncoder cfg p es)"]
  by (simp add: expected_tracks_def)

theorem muxer_started_once_witness:
  "start_discipline 2 0 (fst (runEncoder with_audio pre_ok video_first))
   \<and> count_list (fst (runEncoder with_audio pre_ok video_first)) MuxerStart = 1
   \<and> start_discipline 2 0 (fst (runEncoder with_audio pre_ok audio_first))
   \<and> count_list (fst (runEncoder with_audio pre_ok audio_first)) MuxerStart = 1"
proof -
  have v: "length (filter (\<lambda>e. deq_status (video_out e) = INFO_FORMAT_CHANGED) video_first) \<le> 1"
    "length (filter (\<lambda>e. deq_status (audio_out e) = INFO_FORMAT_CHANGED) video_first) \<le> 1"
    by (simp_all add: video_first_def quiet_iter_def format_changed_def quiet_out_def)
  have a: "length (filter (\<lambda>e. deq_status (video_out e) = INFO_FORMAT_CHANGED) audio_first) \<le> 1"
    "length (filter (\<lambda>e. deq_status (audio_out e) = INFO_FORMAT_CHANGED) audio_first) \<le> 1"
    by (simp_all add: audio_first_def quiet_iter_def format_changed_def quiet_out_def)
  have n: "added_tracks (fst (runEncoder with_audio pre_ok video_first)) = 2"
    "added_tracks (fst (runEncoder with_audio pre_ok audio_first)) = 2"
    by code_simp+
  have e: "expected_tracks with_audio = 2"
    by (simp add: expected_tracks_def with_audio_def)
  from muxer_started_once [OF v, of with_audio pre_ok]
    muxer_started_once [OF a, of with_audio pre_ok] n e
  show ?thesis by simp
qed

text \<open>
  Claim C2 as stated fails when an encoder reports a second format change: the test of
  line 527 is \<^verbatim>\<open>++tracksAdded >= 1\<close>, so the muxer is started again.
\<close>

theorem muxer_started_twice:
  "count_list (fst (runEncoder video_only pre_ok repeated_format)) MuxerStart = 2"
  by code_simp

subsection \<open>Video timestamps\<close>

lemma sint_nsec_to_usec:
  assumes "0 \<le> sint t"
  shows "sint (nsec_to_usec t) = sint t div 1000"
proof -
  have lt: "sint t < 2 ^ 63"
    using sint_lt [of t] by simp
  have d: "sint t sdiv 1000 = sint t div 1000"
    using assms by (simp add: signed_divide_int_def sgn_if)
  have "0 \<le> sint t div 1000" and "sint t div 1000 < 2 ^ 63"
    using assms lt by auto
  then have "signed_take_bit 63 (sint t div 1000) = sint t div 1000"
    by (intro signed_take_bit_int_eq_self) auto
  then show ?thesis
    by (simp add: nsec_to_usec_def d sint_sbintrunc')
qed

lemma nsec_to_usec_later:
  assumes "0 \<le> sint start" and "sint start + 1000 \<le> sint now"
  shows "nsec_to_usec now \<noteq> 0" and "nsec_to_usec start <s nsec_to_usec now"
proof -
  have s: "sint (nsec_to_usec start) = sint start div 1000"
    using assms(1) by (rule sint_nsec_to_usec)
  have n: "sint (nsec_to_usec now) = sint now div 1000"
    using assms by (intro sint_nsec_to_usec) simp
  have "sint start div 1000 < sint now div 1000"
    using assms by (smt (verit) zdiv_mono1 div_add_self2)
  then show "nsec_to_usec start <s nsec_to_usec now"
    by (simp add: word_sless_alt s n)
  have "0 < sint now div 1000"
    using assms by (simp add: pos_imp_zdiv_pos_iff)
  then have "sint (nsec_to_usec now) \<noteq> 0"
    by (simp add: n)
  then show "nsec_to_usec now \<noteq> 0"
    by auto
qed

lemma video_output_timestamp:
  assumes "deq_status e = NO_ERROR" and "deq_flags e AND BUFFER_FLAG_CODECCONFIG = 0"
    and "deq_size e \<noteq> 0" and "videoTrackIdx s \<noteq> - 1"
  shows "filter is_write (fst (video_output r e s))
     = [WriteSampleData Video (videoTrackIdx s) (deq_bufIndex e)
          (if deq_pts e = 0 then nsec_to_usec (now_nsec e) else deq_pts e) (deq_flags e)]"
  using assms by (simp add: video_output_def Let_def is_write_def)

text \<open>
  Claim C9, as amended.  A video buffer that is written is written once, with the reported
  timestamp when it is not zero, and with the reading of the monotonic clock divided by
  1000 when it is zero.  The substituted value is not zero and lies after the start of
  the session, both in microseconds, when the clock has advanced by at least 1000
  nanoseconds since a start that is not negative.
\<close>

theorem video_timestamp_rule:
  "(deq_status e = NO_ERROR \<and> deq_flags e AND BUFFER_FLAG_CODECCONFIG = 0 \<and> deq_size e \<noteq> 0
      \<and> videoTrackIdx s \<noteq> - 1
    \<longrightarrow> filter is_write (fst (video_output r e s))
          = [WriteSampleData Video (videoTrackIdx s) (deq_bufIndex e)
               (if deq_pts e = 0 then nsec_to_usec (now_nsec e) else deq_pts e) (deq_flags e)])
   \<and> (0 \<le> sint start \<and> sint start + 1000 \<le> sint (now_nsec e)
    \<longrightarrow> nsec_to_usec (now_nsec e) \<noteq> 0 \<and> nsec_to_usec start <s nsec_to_usec (now_nsec e))"
  using video_output_timestamp [of e s r] nsec_to_usec_later [of start "now_nsec e"]
  by blast

theorem video_timestamp_rule_witness:
  "filter is_write (fst (video_output False ((data_buffer 3 10 0 1)\<lparr>now_nsec := 7000\<rparr>)
       (initial_state\<lparr>videoTrackIdx := 0\<rparr>)))
     = [WriteSampleData Video 0 3 7 1]
   \<and> filter is_write (fst (video_output False (data_buffer 3 10 42 1)
       (initial_state\<lparr>videoTrackIdx := 0\<rparr>)))
     = [WriteSampleData Video 0 3 42 1]
   \<and> nsec_to_usec 7000 \<noteq> 0 \<and> nsec_to_usec 5000 <s nsec_to_usec 7000"
proof -
  let ?e = "(data_buffer 3 10 0 1)\<lparr>now_nsec := 7000\<rparr>"
  let ?e' = "data_buffer 3 10 42 1"
  let ?s = "initial_state\<lparr>videoTrackIdx := 0\<rparr>"
  have c: "deq_status ?e = NO_ERROR \<and> deq_flags ?e AND BUFFER_FLAG_CODECCONFIG = 0
      \<and> deq_size ?e \<noteq> 0 \<and> videoTrackIdx ?s \<noteq> - 1"
    "deq_status ?e' = NO_ERROR \<and> deq_flags ?e' AND BUFFER_FLAG_CODECCONFIG = 0
      \<and> deq_size ?e' \<noteq> 0"
    by (simp_all add: data_buffer_def quiet_out_def initial_state_def BUFFER_FLAG_CODECCONFIG_def)
  have t: "(0::int) \<le> sint (5000 :: int64) \<and> sint (5000 :: int64) + 1000 \<le> sint (now_nsec ?e)"
    by (simp add: data_buffer_def quiet_out_def)
  have v: "nsec_to_usec 7000 = 7"
    by code_simp
  from video_timestamp_rule [of ?e ?s False 5000] video_timestamp_rule [of ?e' ?s False 0] c t v
  show ?thesis
    by (simp add: data_buffer_def quiet_out_def)
qed

text \<open>
  Claim C9 as stated fails when the clock is read within the microsecond in which the
  session started: the substituted timestamp is the one of the start.
\<close>

theorem video_timestamp_not_later:
  "timestamps Video (fst (runEncoder video_only early_pre untimed_frame)) = [5]
   \<and> nsec_to_usec (start_nsec early_pre) = 5
   \<and> \<not> (nsec_to_usec (start_nsec early_pre) <s 5)"
  by code_simp

subsection \<open>The ways out of the loop\<close>

lemma video_output_failed:
  "snd (video_output r e s) = Inl (Failed err) \<Longrightarrow> err \<noteq> NO_ERROR"
  by (auto simp: video_output_def Let_def split: if_splits)

lemma audio_output_failed:
  "snd (audio_output e s) = Inl (Failed err) \<Longrightarrow> err \<noteq> NO_ERROR"
  by (auto simp: audio_output_def Let_def split: if_splits)

lemma video_output_flag:
  "snd (video_output r e s) = Inr s' \<Longrightarrow>
     gStopRequested s' =
       (gStopRequested s \<and> \<not> (deq_status e = NO_ERROR \<and> deq_flags e AND BUFFER_FLAG_EOS \<noteq> 0))"
  by (auto simp: video_output_def Let_def split: if_splits)

lemma audio_output_flag:
  "snd (audio_output e s) = Inr s' \<Longrightarrow>
     gStopRequested s' =
       (gStopRequested s \<and> \<not> (deq_status e = NO_ERROR \<and> deq_flags e AND BUFFER_FLAG_EOS \<noteq> 0))"
  by (auto simp: audio_output_def Let_def split: if_splits)

lemma signalCatcher_flag:
  "gStopRequested (snd (signalCatcher b s)) = (b \<or> gStopRequested s)"
  by (simp add: signalCatcher_def)

lemma iteration_failed:
  "snd (iteration r e s) = Inl (Failed err) \<Longrightarrow> err \<noteq> NO_ERROR"
  unfolding iteration_def Let_def
  by (auto simp: case_prod_beta split: sum.splits if_splits
      dest: video_output_failed audio_output_failed)

lemma iteration_flag:
  assumes "snd (iteration r e s) = Inr s'"
  shows "gStopRequested s' =
     ((((gStopRequested s \<or> sig_before_video e)
          \<and> \<not> (deq_status (video_out e) = NO_ERROR
                \<and> deq_flags (video_out e) AND BUFFER_FLAG_EOS \<noteq> 0))
        \<or> sig_before_audio e)
      \<and> \<not> (r \<and> deq_status (audio_out e) = NO_ERROR
            \<and> deq_flags (audio_out e) AND BUFFER_FLAG_EOS \<noteq> 0))"
proof -
  obtain t1 s1 where sc1: "signalCatcher (sig_before_video e) s = (t1, s1)"
    by (cases "signalCatcher (sig_before_video e) s")
  have f1: "gStopRequested s1 = (sig_before_video e \<or> gStopRequested s)"
    using signalCatcher_flag [of "sig_before_video e" s] sc1 by simp
  obtain t2 r2 where vo: "video_output r (video_out e) s1 = (t2, r2)"
    by (cases "video_output r (video_out e) s1")
  from assms sc1 vo obtain s2 where r2: "r2 = Inr s2"
    by (cases r2) (auto simp: iteration_def Let_def)
  have f2: "gStopRequested s2 =
      (gStopRequested s1 \<and> \<not> (deq_status (video_out e) = NO_ERROR
                \<and> deq_flags (video_out e) AND BUFFER_FLAG_EOS \<noteq> 0))"
    using video_output_flag [of r "video_out e" s1 s2] vo r2 by simp
  obtain t3 s3 where sc2: "signalCatcher (sig_before_audio e) s2 = (t3, s3)"
    by (cases "signalCatcher (sig_before_audio e) s2")
  have f3: "gStopRequested s3 = (sig_before_audio e \<or> gStopRequested s2)"
    using signalCatcher_flag [of "sig_before_audio e" s2] sc2 by simp
  show ?thesis
  proof (cases r)
    case False
    with assms sc1 vo r2 sc2 have "s' = s3"
      by (simp add: iteration_def Let_def)
    with False f1 f2 f3 show ?thesis by auto
  next
    case True
    obtain t4 r4 where ao: "audio_output (audio_out e) s3 = (t4, r4)"
      by (cases "audio_output (audio_out e) s3")
    with True assms sc1 vo r2 sc2 have "r4 = Inr s'"
      by (simp add: iteration_def Let_def)
    then have "gStopRequested s' =
      (gStopRequested s3 \<and> \<not> (deq_status (audio_out e) = NO_ERROR
                \<and> deq_flags (audio_out e) AND BUFFER_FLAG_EOS \<noteq> 0))"
      using audio_output_flag [of "audio_out e" s3 s'] ao by simp
    with True f1 f2 f3 show ?thesis by auto
  qed
qed

lemma loop_not_stopped:
  assumes "\<not> gStopRequested s" and "\<forall>e\<in>set es. undisturbed w e"
  shows "snd (loop r w es s) \<noteq> Returned NO_ERROR"
  using assms
proof (induction es arbitrary: s)
  case Nil
  then show ?case by simp
next
  case (Cons e es)
  from Cons.prems have u: "\<not> sig_before_test e" "\<not> sig_before_video e" "\<not> sig_before_audio e"
    "\<not> w <s now_test e"
    by (simp_all add: undisturbed_def)
  obtain t1 r1 where it: "iteration r e s = (t1, r1)"
    by (cases "iteration r e s")
  show ?case
  proof (cases r1)
    case (Inl f)
    show ?thesis
    proof (cases f)
      case (Failed err)
      with Inl it have "err \<noteq> NO_ERROR"
        using iteration_failed [of r e s err] by simp
      with Failed Inl it u Cons.prems(1) show ?thesis
        by (simp add: signalCatcher_def)
    next
      case CheckFailed
      with Inl it u Cons.prems(1) show ?thesis
        by (simp add: signalCatcher_def)
    qed
  next
    case (Inr s1)
    with it have "\<not> gStopRequested s1"
      using iteration_flag [of r e s s1] u Cons.prems(1) by simp
    then have "snd (loop r w es s1) \<noteq> Returned NO_ERROR"
      using Cons.prems(2) by (intro Cons.IH) simp_all
    with Inr it u Cons.prems(1) show ?thesis
      by (simp add: signalCatcher_def case_prod_beta)
  qed
qed

lemma runEncoder_not_stopped:
  assumes "\<forall>e\<in>set es. undisturbed (end_time cfg p) e"
  shows "snd (runEncoder cfg p es) \<noteq> Returned NO_ERROR"
  using runEncoder_shape [of cfg p es]
    loop_not_stopped [of initial_state es "end_time cfg p" "gRecordAudio cfg"] assms
  by (auto simp: initial_state_def)

lemma video_output_eos:
  assumes "deq_status e = NO_ERROR" and "deq_flags e AND BUFFER_FLAG_EOS \<noteq> 0"
    and "release_status e = NO_ERROR"
    and "deq_size e = 0 \<or> deq_flags e AND BUFFER_FLAG_CODECCONFIG \<noteq> 0
         \<or> (videoTrackIdx s \<noteq> - 1 \<and> write_status e = NO_ERROR)"
  shows "\<exists>s'. snd (video_output r e s) = Inr s' \<and> \<not> gStopRequested s'"
  using assms by (auto simp: video_output_def Let_def)

lemma audio_output_eos:
  assumes "deq_status e = NO_ERROR" and "deq_flags e AND BUFFER_FLAG_EOS \<noteq> 0"
    and "release_status e = NO_ERROR"
    and "deq_size e = 0 \<or> deq_flags e AND BUFFER_FLAG_CODECCONFIG \<noteq> 0
         \<or> (audioTrackIdx s \<noteq> - 1 \<and> write_status e = NO_ERROR)"
  shows "\<exists>s'. snd (audio_output e s) = Inr s' \<and> \<not> gStopRequested s'"
  using assms by (auto simp: audio_output_def Let_def)

lemma video_output_goes_on:
  assumes "no_failure (videoTrackIdx s) e"
  shows "\<exists>s'. snd (video_output r e s) = Inr s' \<and> videoTrackIdx s' = videoTrackIdx s
           \<and> audioTrackIdx s' = audioTrackIdx s \<and> (gStopRequested s' \<longrightarrow> gStopRequested s)"
proof (cases "deq_status e = MINUS_EAGAIN")
  case True
  then show ?thesis
    by (simp add: video_output_def Let_def)
next
  case False
  with assms have ok: "deq_status e = NO_ERROR" "release_status e = NO_ERROR"
    and data: "deq_size e = 0 \<or> deq_flags e AND BUFFER_FLAG_CODECCONFIG \<noteq> 0
           \<or> (videoTrackIdx s \<noteq> - 1 \<and> write_status e = NO_ERROR)"
    by (simp_all add: no_failure_def)
  from data show ?thesis
  proof (elim disjE)
    assume "deq_size e = 0"
    with ok show ?thesis
      by (simp add: video_output_def Let_def)
  next
    assume "deq_flags e AND BUFFER_FLAG_CODECCONFIG \<noteq> 0"
    with ok show ?thesis
      by (simp add: video_output_def Let_def)
  next
    assume "videoTrackIdx s \<noteq> - 1 \<and> write_status e = NO_ERROR"
    with ok show ?thesis
      by (simp add: video_output_def Let_def)
  qed
qed

lemma audio_output_goes_on:
  assumes "no_failure (audioTrackIdx s) e"
  shows "\<exists>s'. snd (audio_output e s) = Inr s' \<and> videoTrackIdx s' = videoTrackIdx s
           \<and> audioTrackIdx s' = audioTrackIdx s \<and> (gStopRequested s' \<longrightarrow> gStopRequested s)"
proof (cases "deq_status e = MINUS_EAGAIN")
  case True
  then show ?thesis
    by (simp add: audio_output_def Let_def)
next
  case False
  with assms have ok: "deq_status e = NO_ERROR" "release_status e = NO_ERROR"
    and data: "deq_size e = 0 \<or> deq_flags e AND BUFFER_FLAG_CODECCONFIG \<noteq> 0
           \<or> (audioTrackIdx s \<noteq> - 1 \<and> write_status e = NO_ERROR)"
    by (simp_all add: no_failure_def)
  from data show ?thesis
  proof (elim disjE)
    assume "deq_size e = 0"
    with ok show ?thesis
      by (simp add: audio_output_def Let_def)
  next
    assume "deq_flags e AND BUFFER_FLAG_CODECCONFIG \<noteq> 0"
    with ok show ?thesis
      by (simp add: audio_output_def Let_def)
  next
    assume "audioTrackIdx s \<noteq> - 1 \<and> write_status e = NO_ERROR"
    with ok show ?thesis
      by (simp add: audio_output_def Let_def)
  qed
qed

lemma video_output_dequeues:
  "count_list (fst (video_output r e s)) (DequeueOutputBuffer Video) = 1"
  by (simp add: video_output_def Let_def)

lemma audio_output_dequeues:
  "count_list (fst (audio_output e s)) (DequeueOutputBuffer Video) = 0"
  by (simp add: audio_output_def Let_def)

lemma count_list_append: "count_list (t @ u) x = count_list t x + count_list u x"
  by (induction t) auto

lemma iteration_goes_on:
  assumes quiet: "\<not> sig_before_video e" "\<not> sig_before_audio e"
    and video: "no_failure (videoTrackIdx s) (video_out e)"
    and audio: "r \<longrightarrow> no_failure (audioTrackIdx s) (audio_out e)"
    and flag: "\<not> gStopRequested s"
  shows "\<exists>t s'. iteration r e s = (t, Inr s') \<and> videoTrackIdx s' = videoTrackIdx s
           \<and> audioTrackIdx s' = audioTrackIdx s \<and> \<not> gStopRequested s'
           \<and> count_list t (DequeueOutputBuffer Video) = 1"
proof -
  obtain t2 r2 where vo: "video_output r (video_out e) s = (t2, r2)"
    by (cases "video_output r (video_out e) s")
  from video_output_goes_on [OF video, of r] vo flag
  obtain s2 where r2: "r2 = Inr s2" and s2: "videoTrackIdx s2 = videoTrackIdx s"
    "audioTrackIdx s2 = audioTrackIdx s" "\<not> gStopRequested s2"
    by auto
  have c2: "count_list t2 (DequeueOutputBuffer Video) = 1"
    using video_output_dequeues [of r "video_out e" s] vo by simp
  show ?thesis
  proof (cases r)
    case False
    with quiet vo r2 have "iteration r e s = (t2, Inr s2)"
      by (simp add: iteration_def Let_def signalCatcher_def)
    with s2 c2 show ?thesis by simp
  next
    case True
    obtain t4 r4 where ao: "audio_output (audio_out e) s2 = (t4, r4)"
      by (cases "audio_output (audio_out e) s2")
    from True audio s2 have "no_failure (audioTrackIdx s2) (audio_out e)"
      by simp
    from audio_output_goes_on [OF this] ao s2
    obtain s4 where r4: "r4 = Inr s4" and s4: "videoTrackIdx s4 = videoTrackIdx s"
      "audioTrackIdx s4 = audioTrackIdx s" "\<not> gStopRequested s4"
      by auto
    have c4: "count_list t4 (DequeueOutputBuffer Video) = 0"
      using audio_output_dequeues [of "audio_out e" s2] ao by simp
    from True quiet vo r2 ao r4
    have "iteration r e s = (audio_input (audio_in e) @ t2 @ t4, Inr s4)"
      by (simp add: iteration_def Let_def signalCatcher_def)
    moreover have "count_list (audio_input (audio_in e)) (DequeueOutputBuffer Video) = 0"
      by (simp add: audio_input_def)
    ultimately show ?thesis
      using s4 c2 c4 by (simp add: count_list_append)
  qed
qed

lemma loop_goes_on:
  assumes "\<not> gStopRequested s"
    and "\<forall>e\<in>set es. undisturbed w e \<and> no_failure (videoTrackIdx s) (video_out e)
           \<and> (r \<longrightarrow> no_failure (audioTrackIdx s) (audio_out e))"
  shows "(\<exists>s'. snd (loop r w es s) = Running s' \<and> \<not> gStopRequested s')
       \<and> count_list (fst (loop r w es s)) (DequeueOutputBuffer Video) = length es"
  using assms
proof (induction es arbitrary: s)
  case Nil
  then show ?case by simp
next
  case (Cons e es)
  from Cons.prems(2) have u: "\<not> sig_before_test e" "\<not> sig_before_video e"
    "\<not> sig_before_audio e" "\<not> w <s now_test e"
    and v: "no_failure (videoTrackIdx s) (video_out e)"
    and a: "r \<longrightarrow> no_failure (audioTrackIdx s) (audio_out e)"
    by (simp_all add: undisturbed_def)
  from iteration_goes_on [OF u(2,3) v a Cons.prems(1)]
  obtain t1 s1 where it: "iteration r e s = (t1, Inr s1)"
    and s1: "videoTrackIdx s1 = videoTrackIdx s" "audioTrackIdx s1 = audioTrackIdx s"
      "\<not> gStopRequested s1"
    and c1: "count_list t1 (DequeueOutputBuffer Video) = 1"
    by blast
  have "(\<exists>s'. snd (loop r w es s1) = Running s' \<and> \<not> gStopRequested s')
       \<and> count_list (fst (loop r w es s1)) (DequeueOutputBuffer Video) = length es"
    using Cons.prems(2) s1 by (intro Cons.IH) simp_all
  moreover have "loop r w (e # es) s = (t1 @ fst (loop r w es s1), snd (loop r w es s1))"
    using u Cons.prems(1) it by (simp add: signalCatcher_def case_prod_beta)
  ultimately show ?case
    using c1 by (simp add: count_list_append)
qed

text \<open>
  Claim C6.  A buffer with the end-of-stream flag does not end the loop.  In a run of
  the loop in which no signal arrives, every test is made before the deadline and
  nothing fails (each polled output has nothing to give or gives a buffer that is
  handled without error), every iteration is executed, one dequeue on the video
  encoder each, and the loop is still running at the end with \<^verbatim>\<open>gStopRequested\<close>
  false, whatever the flags of the buffers are and however many of them are marked
  end-of-stream.  A buffer with the flag that is handled without error leaves
  \<^verbatim>\<open>gStopRequested\<close> false.  And \<^verbatim>\<open>runEncoder\<close> never returns \<^verbatim>\<open>NO_ERROR\<close> from
  a run in which no signal arrives and no test is made after the deadline: the normal
  return comes from the tests of lines 442 and 447 only.
\<close>

theorem eos_does_not_stop:
  "(\<not> gStopRequested s0
      \<and> (\<forall>x\<in>set xs. undisturbed w x \<and> no_failure (videoTrackIdx s0) (video_out x)
             \<and> (r \<longrightarrow> no_failure (audioTrackIdx s0) (audio_out x)))
    \<longrightarrow> (\<exists>s'. snd (loop r w xs s0) = Running s' \<and> \<not> gStopRequested s')
      \<and> count_list (fst (loop r w xs s0)) (DequeueOutputBuffer Video) = length xs)
   \<and> (deq_status e = NO_ERROR \<and> deq_flags e AND BUFFER_FLAG_EOS \<noteq> 0
      \<and> release_status e = NO_ERROR
      \<and> (deq_size e = 0 \<or> deq_flags e AND BUFFER_FLAG_CODECCONFIG \<noteq> 0
         \<or> (videoTrackIdx s \<noteq> - 1 \<and> audioTrackIdx s \<noteq> - 1 \<and> write_status e = NO_ERROR))
    \<longrightarrow> (\<exists>s'. snd (video_output r e s) = Inr s' \<and> \<not> gStopRequested s')
      \<and> (\<exists>s'. snd (audio_output e s) = Inr s' \<and> \<not> gStopRequested s'))
   \<and> ((\<forall>x\<in>set es. undisturbed (end_time cfg p) x)
    \<longrightarrow> snd (runEncoder cfg p es) \<noteq> Returned NO_ERROR)"
  using loop_goes_on [of s0 xs w r] video_output_eos [of e s r] audio_output_eos [of e s]
    runEncoder_not_stopped [of es cfg p]
  by blast

theorem eos_does_not_stop_witness:
  "list_all (\<lambda>x. undisturbed 180000000000 x
        \<and> no_failure (videoTrackIdx registered_state) (video_out x)
        \<and> no_failure (audioTrackIdx registered_state) (audio_out x)) eos_iterations
   \<and> list_all (eos_seen True) (take 2 eos_iterations)
   \<and> (\<exists>s'. snd (loop True 180000000000 eos_iterations registered_state) = Running s'
          \<and> \<not> gStopRequested s')
   \<and> count_list (fst (loop True 180000000000 eos_iterations registered_state))
        (DequeueOutputBuffer Video) = 3
   \<and> (\<exists>s'. snd (video_output False (data_buffer 3 10 5 4)
             (registered_state\<lparr>gStopRequested := True\<rparr>))
           = Inr s' \<and> \<not> gStopRequested s')
   \<and> (\<exists>s'. snd (audio_output (data_buffer 3 10 5 4)
             (registered_state\<lparr>gStopRequested := True\<rparr>))
           = Inr s' \<and> \<not> gStopRequested s')
   \<and> list_all (undisturbed (end_time video_only pre_ok)) eos_session
   \<and> snd (runEncoder video_only pre_ok eos_session) \<noteq> Returned NO_ERROR"
proof -
  let ?e = "data_buffer 3 10 5 4"
  let ?s = "registered_state\<lparr>gStopRequested := True\<rparr>"
  have a: "list_all (\<lambda>x. undisturbed 180000000000 x
        \<and> no_failure (videoTrackIdx registered_state) (video_out x)
        \<and> no_failure (audioTrackIdx registered_state) (audio_out x)) eos_iterations"
    "list_all (eos_seen True) (take 2 eos_iterations)"
    by code_simp+
  from a(1) have h0: "\<not> gStopRequested registered_state
      \<and> (\<forall>x\<in>set eos_iterations. undisturbed 180000000000 x
             \<and> no_failure (videoTrackIdx registered_state) (video_out x)
             \<and> (True \<longrightarrow> no_failure (audioTrackIdx registered_state) (audio_out x)))"
    by (simp add: list_all_iff registered_state_def initial_state_def)
  have n: "length eos_iterations = 3"
    by (simp add: eos_iterations_def)
  have c: "deq_status ?e = NO_ERROR \<and> deq_flags ?e AND BUFFER_FLAG_EOS \<noteq> 0
      \<and> release_status ?e = NO_ERROR
      \<and> (deq_size ?e = 0 \<or> deq_flags ?e AND BUFFER_FLAG_CODECCONFIG \<noteq> 0
         \<or> (videoTrackIdx ?s \<noteq> - 1 \<and> audioTrackIdx ?s \<noteq> - 1 \<and> write_status ?e = NO_ERROR))"
    by (simp add: data_buffer_def quiet_out_def registered_state_def initial_state_def
        BUFFER_FLAG_EOS_def)
  have u: "list_all (undisturbed (end_time video_only pre_ok)) eos_session"
    by code_simp
  then have h: "\<forall>x\<in>set eos_session. undisturbed (end_time video_only pre_ok) x"
    by (simp add: list_all_iff)
  note t1 = eos_does_not_stop [where ?s0.0 = registered_state and xs = eos_iterations
      and w = 180000000000 and r = True and e = ?e and s = ?s and es = eos_session
      and cfg = video_only and p = pre_ok]
  note t2 = eos_does_not_stop [where ?s0.0 = registered_state and xs = eos_iterations
      and w = 180000000000 and r = False and e = ?e and s = ?s and es = eos_session
      and cfg = video_only and p = pre_ok]
  note l = t1 [THEN conjunct1, THEN mp, OF h0]
  have l1: "\<exists>s'. snd (loop True 180000000000 eos_iterations registered_state) = Running s'
          \<and> \<not> gStopRequested s'"
    by (rule l [THEN conjunct1])
  have l2: "count_list (fst (loop True 180000000000 eos_iterations registered_state))
        (DequeueOutputBuffer Video) = 3"
    using l [THEN conjunct2] by (simp only: n)
  note v = t2 [THEN conjunct2, THEN conjunct1, THEN mp, OF c]
  have v1: "\<exists>s'. snd (video_output False ?e ?s) = Inr s' \<and> \<not> gStopRequested s'"
    by (rule v [THEN conjunct1])
  have v2: "\<exists>s'. snd (audio_output ?e ?s) = Inr s' \<and> \<not> gStopRequested s'"
    by (rule v [THEN conjunct2])
  have e: "snd (runEncoder video_only pre_ok eos_session) \<noteq> Returned NO_ERROR"
    by (rule t1 [THEN conjunct2, THEN conjunct2, THEN mp, OF h])
  show ?thesis
    by (intro conjI) (fact a l1 l2 v1 v2 u e)+
qed

subsection \<open>Cancellation\<close>

lemma loop_append:
  "loop r w es1 s = (t1, Running s1) \<Longrightarrow>
     loop r w (es1 @ es2) s = (t1 @ fst (loop r w es2 s1), snd (loop r w es2 s1))"
proof (induction es1 arbitrary: s t1)
  case Nil
  then show ?case by simp
next
  case (Cons e es1)
  obtain t0 s0 where sc0: "signalCatcher (sig_before_test e) s = (t0, s0)"
    by (cases "signalCatcher (sig_before_test e) s")
  obtain ta ra where it: "iteration r e s0 = (ta, ra)"
    by (cases "iteration r e s0")
  obtain tb rb where rest: "loop r w es1 (projr ra) = (tb, rb)"
    by (cases "loop r w es1 (projr ra)")
  from Cons.prems sc0 it have go: "\<not> gStopRequested s0" "\<not> w <s now_test e"
    by (auto split: if_splits)
  from Cons.prems sc0 it go obtain sa where ra: "ra = Inr sa"
    by (cases ra) (auto split: failure.splits)
  from Cons.prems sc0 it go ra rest have t1: "t1 = t0 @ ta @ tb" and rb: "rb = Running s1"
    by simp_all
  from rest ra rb have "loop r w (es1 @ es2) sa = (tb @ fst (loop r w es2 s1), snd (loop r w es2 s1))"
    by (intro Cons.IH) simp
  with sc0 it go ra t1 show ?case
    by simp
qed

lemma runEncoder_running:
  assumes "snd (runEncoder cfg p es1) = Running s1"
  shows "runEncoder cfg p es
     = (setup_calls (gRecordAudio cfg)
          @ fst (loop (gRecordAudio cfg) (end_time cfg p) es initial_state),
        snd (loop (gRecordAudio cfg) (end_time cfg p) es initial_state))"
  using assms
  by (simp add: runEncoder_def Let_def case_prod_beta setup_calls_def end_time_def
      split: if_splits)

lemma loop_stops_at_test:
  assumes "gStopRequested s \<or> sig_before_test e"
  shows "loop r w (e # es) s
     = (fst (signalCatcher (sig_before_test e) s) @ loop_exit r, Returned NO_ERROR)"
  using assms by (auto simp: signalCatcher_def)

lemma runEncoder_stops_at_test:
  assumes run: "runEncoder cfg p es1 = (t1, Running s1)"
    and flag: "gStopRequested s1 \<or> sig_before_test e"
  shows "runEncoder cfg p (es1 @ e # es2)
     = (t1 @ fst (signalCatcher (sig_before_test e) s1) @ loop_exit (gRecordAudio cfg),
        Returned NO_ERROR)"
proof -
  let ?r = "gRecordAudio cfg" and ?w = "end_time cfg p"
  from run have s: "snd (runEncoder cfg p es1) = Running s1"
    by simp
  from runEncoder_running [OF s, of es1] run
  have l: "loop ?r ?w es1 initial_state = (fst (loop ?r ?w es1 initial_state), Running s1)"
    and t1: "t1 = setup_calls ?r @ fst (loop ?r ?w es1 initial_state)"
    by (simp_all add: prod_eq_iff)
  from loop_append [OF l, of "e # es2"] loop_stops_at_test [OF flag, of ?r ?w es2]
  have "loop ?r ?w (es1 @ e # es2) initial_state
      = (fst (loop ?r ?w es1 initial_state)
           @ fst (signalCatcher (sig_before_test e) s1) @ loop_exit ?r, Returned NO_ERROR)"
    by simp
  with runEncoder_running [OF s, of "es1 @ e # es2"] t1 show ?thesis
    by simp
qed

text \<open>
  Claim C5, as amended.  Whatever has happened before, when \<^verbatim>\<open>gStopRequested\<close> is set
  at the test of the \<^verbatim>\<open>while\<close> (the signal was caught before the test and the flag has
  not been cleared since), the loop ends at that test: \<^verbatim>\<open>runEncoder\<close> makes no call
  but \<^verbatim>\<open>audioRecorder->stop()\<close> and returns \<^verbatim>\<open>NO_ERROR\<close>, and \<^verbatim>\<open>recordScreen\<close>
  then shuts down, stops the muxer and returns 0.  A signal caught during an iteration
  does not interrupt it; if the iteration ends without error and no polled output gave an
  end-of-stream buffer, the flag is set when the iteration ends.
\<close>

theorem cancellation:
  "(runEncoder cfg p es1 = (t1, Running s1) \<and> (gStopRequested s1 \<or> sig_before_test e)
    \<longrightarrow> runEncoder cfg p (es1 @ e # es2)
          = (t1 @ fst (signalCatcher (sig_before_test e) s1) @ loop_exit (gRecordAudio cfg),
             Returned NO_ERROR)
      \<and> recordScreen_tail cfg p (es1 @ e # es2)
          = (t1 @ fst (signalCatcher (sig_before_test e) s1) @ loop_exit (gRecordAudio cfg)
               @ shutdown_calls (gRecordAudio cfg),
             Returned 0))
   \<and> (snd (iteration r x s) = Inr s' \<and> (sig_before_video x \<or> sig_before_audio x)
      \<and> \<not> eos_seen r x
    \<longrightarrow> gStopRequested s')"
proof -
  have "recordScreen_tail cfg p (es1 @ e # es2)
          = (t1 @ fst (signalCatcher (sig_before_test e) s1) @ loop_exit (gRecordAudio cfg)
               @ shutdown_calls (gRecordAudio cfg),
             Returned 0)"
    if "runEncoder cfg p (es1 @ e # es2)
          = (t1 @ fst (signalCatcher (sig_before_test e) s1) @ loop_exit (gRecordAudio cfg),
             Returned NO_ERROR)"
    using that by (simp add: recordScreen_tail_def shutdown_calls_def)
  moreover have "gStopRequested s'"
    if "snd (iteration r x s) = Inr s'" "sig_before_video x \<or> sig_before_audio x"
      "\<not> eos_seen r x"
    using iteration_flag [OF that(1)] that(2,3) by (auto simp: eos_seen_def)
  ultimately show ?thesis
    using runEncoder_stops_at_test [of cfg p es1 t1 s1 e es2] by blast
qed

text \<open>
  Claim C5 as stated fails for a signal caught during an iteration: the frame dequeued
  after the signal is written, and as it carries the end-of-stream flag the stop request
  is dropped, so that the next iteration runs and writes again.
\<close>

theorem cancellation_writes_and_continues:
  "runEncoder video_only pre_ok cancelled_session
     = ([GetOutputBuffers Video,
         DequeueOutputBuffer Video, GetOutputFormat Video, AddTrack Video, MuxerStart,
         SignalCaught, DequeueOutputBuffer Video, WriteSampleData Video 0 3 5 5,
         ReleaseOutputBuffer Video 3,
         DequeueOutputBuffer Video, WriteSampleData Video 0 4 6 0,
         ReleaseOutputBuffer Video 4],
        Running \<lparr>videoTrackIdx = 0, audioTrackIdx = - 1, debugNumFrames = 2, tracksAdded = 1,
                 lastAudioPtsUs = 0, gStopRequested = False\<rparr>)
   \<and> \<not> no_write_after_signal (fst (runEncoder video_only pre_ok cancelled_session))"
  by code_simp

theorem cancellation_witness:
  "recordScreen_tail video_only pre_ok
     ([quiet_iter\<lparr>video_out := format_changed 0\<rparr>,
       quiet_iter\<lparr>video_out := data_buffer 3 10 5 1\<rparr>]
      @ quiet_iter\<lparr>sig_before_test := True\<rparr> # [quiet_iter\<lparr>video_out := data_buffer 4 10 6 0\<rparr>])
     = ([GetOutputBuffers Video,
         DequeueOutputBuffer Video, GetOutputFormat Video, AddTrack Video, MuxerStart,
         DequeueOutputBuffer Video, WriteSampleData Video 0 3 5 1, ReleaseOutputBuffer Video 3,
         SignalCaught,
         DestroyDisplay, StopEncoder Video, MuxerStop, ReleaseEncoder Video],
        Returned 0)
   \<and> snd (iteration False
            (quiet_iter\<lparr>sig_before_video := True, video_out := data_buffer 3 10 5 1\<rparr>)
            \<lparr>videoTrackIdx = 0, audioTrackIdx = - 1, debugNumFrames = 0, tracksAdded = 1,
             lastAudioPtsUs = 0, gStopRequested = False\<rparr>)
       = Inr \<lparr>videoTrackIdx = 0, audioTrackIdx = - 1, debugNumFrames = 1, tracksAdded = 1,
              lastAudioPtsUs = 0, gStopRequested = True\<rparr>
   \<and> gStopRequested
        \<lparr>videoTrackIdx = 0, audioTrackIdx = - 1, debugNumFrames = 1, tracksAdded = 1,
         lastAudioPtsUs = 0, gStopRequested = True\<rparr>"
proof -
  let ?es1 = "[quiet_iter\<lparr>video_out := format_changed 0\<rparr>,
       quiet_iter\<lparr>video_out := data_buffer 3 10 5 1\<rparr>]"
  let ?s1 = "\<lparr>videoTrackIdx = 0, audioTrackIdx = - 1, debugNumFrames = 1, tracksAdded = 1,
         lastAudioPtsUs = 0, gStopRequested = False\<rparr>"
  let ?e = "quiet_iter\<lparr>sig_before_test := True\<rparr>"
  let ?e2 = "quiet_iter\<lparr>sig_before_video := True, video_out := data_buffer 3 10 5 1\<rparr>"
  let ?s = "\<lparr>videoTrackIdx = 0, audioTrackIdx = - 1, debugNumFrames = 0, tracksAdded = 1,
         lastAudioPtsUs = 0, gStopRequested = False\<rparr>"
  let ?s' = "\<lparr>videoTrackIdx = 0, audioTrackIdx = - 1, debugNumFrames = 1, tracksAdded = 1,
         lastAudioPtsUs = 0, gStopRequested = True\<rparr>"
  have h1: "runEncoder video_only pre_ok ?es1
     = ([GetOutputBuffers Video,
         DequeueOutputBuffer Video, GetOutputFormat Video, AddTrack Video, MuxerStart,
         DequeueOutputBuffer Video, WriteSampleData Video 0 3 5 1, ReleaseOutputBuffer Video 3],
        Running ?s1)"
    by code_simp
  have h2: "gStopRequested ?s1 \<or> sig_before_test ?e"
    by (simp add: quiet_iter_def)
  have h3: "snd (iteration False ?e2 ?s) = Inr ?s'"
    by code_simp
  have h4: "(sig_before_video ?e2 \<or> sig_before_audio ?e2) \<and> \<not> eos_seen False ?e2"
    by (simp add: quiet_iter_def eos_seen_def data_buffer_def quiet_out_def BUFFER_FLAG_EOS_def)
  note c = cancellation [where cfg = video_only and p = pre_ok and ?es1.0 = ?es1 and e = ?e
      and ?es2.0 = "[quiet_iter\<lparr>video_out := data_buffer 4 10 6 0\<rparr>]"
      and r = False and x = ?e2 and s = ?s and s' = ?s', unfolded h1]
  have "gRecordAudio video_only = False"
    by (simp add: video_only_def)
  with c h2 h3 h4 show ?thesis
    by (simp add: signalCatcher_def loop_exit_def shutdown_calls_def)
qed

subsection \<open>Violations of the encoder contract\<close>

lemma video_output_check:
  assumes "deq_status e = NO_ERROR" and "deq_flags e AND BUFFER_FLAG_CODECCONFIG = 0"
    and "deq_size e \<noteq> 0" and "videoTrackIdx s = - 1"
  shows "video_output r e s = ([DequeueOutputBuffer Video], Inl CheckFailed)"
  using assms by (simp add: video_output_def Let_def)

lemma audio_output_check:
  assumes "deq_status e = NO_ERROR" and "deq_flags e AND BUFFER_FLAG_CODECCONFIG = 0"
    and "deq_size e \<noteq> 0" and "audioTrackIdx s = - 1"
  shows "audio_output e s = ([DequeueOutputBuffer Audio], Inl CheckFailed)"
  using assms by (simp add: audio_output_def Let_def)

lemma loop_check:
  assumes "snd (iteration r x s) = Inl CheckFailed" and "\<not> gStopRequested s"
    and "\<not> sig_before_test x" and "\<not> w <s now_test x"
  shows "loop r w (x # es) s = (fst (iteration r x s), Aborted)"
  using assms by (cases "iteration r x s") (simp add: signalCatcher_def)

lemma video_output_second_format:
  assumes "deq_status e = INFO_FORMAT_CHANGED"
  shows "snd (video_output r e s)
     = (if (if r then 2 else 1) \<le> tracksAdded s + 1 \<and> start_status e \<noteq> NO_ERROR
        then Inl (Failed (start_status e))
        else Inr (s\<lparr>videoTrackIdx := addTrack_ret e, tracksAdded := tracksAdded s + 1\<rparr>))"
    and "AddTrack Video \<in> set (fst (video_output r e s))"
  using assms by (simp_all add: video_output_format_changed)

lemma audio_output_second_format:
  assumes "deq_status e = INFO_FORMAT_CHANGED"
  shows "snd (audio_output e s)
     = (if 2 \<le> tracksAdded s + 1 \<and> start_status e \<noteq> NO_ERROR
        then Inl (Failed (start_status e))
        else Inr (s\<lparr>audioTrackIdx := addTrack_ret e, tracksAdded := tracksAdded s + 1\<rparr>))"
    and "AddTrack Audio \<in> set (fst (audio_output e s))"
  using assms by (simp_all add: audio_output_format_changed)

text \<open>
  Claim C7, as amended.  A buffer with data (size not zero, not codec config) of a stream
  whose track index is still -1 fails the \<^verbatim>\<open>CHECK\<close> before anything is written, and
  the loop is aborted.  A format change is handled in the same way whether or not the
  stream has a track already: \<^verbatim>\<open>addTrack\<close> is called, the index is overwritten, the
  counter is incremented, and the session fails only when the counter has reached the
  expected number and the \<^verbatim>\<open>muxer->start()\<close> that follows returns an error.
\<close>

theorem protocol_violations:
  "(deq_status e = NO_ERROR \<and> deq_flags e AND BUFFER_FLAG_CODECCONFIG = 0 \<and> deq_size e \<noteq> 0
    \<longrightarrow> (videoTrackIdx s = - 1
          \<longrightarrow> video_output r e s = ([DequeueOutputBuffer Video], Inl CheckFailed))
      \<and> (audioTrackIdx s = - 1
          \<longrightarrow> audio_output e s = ([DequeueOutputBuffer Audio], Inl CheckFailed)))
   \<and> (snd (iteration r x s) = Inl CheckFailed \<and> \<not> gStopRequested s \<and> \<not> sig_before_test x
      \<and> \<not> w <s now_test x
    \<longrightarrow> loop r w (x # es) s = (fst (iteration r x s), Aborted))
   \<and> (deq_status e = INFO_FORMAT_CHANGED
    \<longrightarrow> snd (video_output r e s)
          = (if (if r then 2 else 1) \<le> tracksAdded s + 1 \<and> start_status e \<noteq> NO_ERROR
             then Inl (Failed (start_status e))
             else Inr (s\<lparr>videoTrackIdx := addTrack_ret e, tracksAdded := tracksAdded s + 1\<rparr>))
      \<and> AddTrack Video \<in> set (fst (video_output r e s))
      \<and> snd (audio_output e s)
          = (if 2 \<le> tracksAdded s + 1 \<and> start_status e \<noteq> NO_ERROR
             then Inl (Failed (start_status e))
             else Inr (s\<lparr>audioTrackIdx := addTrack_ret e, tracksAdded := tracksAdded s + 1\<rparr>))
      \<and> AddTrack Audio \<in> set (fst (audio_output e s)))"
  using video_output_check [of e s r] audio_output_check [of e s] loop_check [of r x s w es]
    video_output_second_format [of e r s] audio_output_second_format [of e s]
  by blast

theorem protocol_violations_witness:
  "video_output False (data_buffer 3 10 5 1) initial_state
     = ([DequeueOutputBuffer Video], Inl CheckFailed)
   \<and> audio_output (data_buffer 3 10 5 1) initial_state
     = ([DequeueOutputBuffer Audio], Inl CheckFailed)
   \<and> snd (loop False 180000000000 [quiet_iter\<lparr>video_out := data_buffer 3 10 5 1\<rparr>]
          initial_state) = Aborted
   \<and> snd (video_output True (format_changed 7)
          (initial_state\<lparr>videoTrackIdx := 0, tracksAdded := 1\<rparr>))
     = Inr (initial_state\<lparr>videoTrackIdx := 7, tracksAdded := 2\<rparr>)"
proof -
  let ?d = "data_buffer 3 10 5 1"
  let ?x = "quiet_iter\<lparr>video_out := ?d\<rparr>"
  let ?f = "format_changed 7"
  let ?s = "initial_state\<lparr>videoTrackIdx := 0, tracksAdded := 1\<rparr>"
  have d: "deq_status ?d = NO_ERROR \<and> deq_flags ?d AND BUFFER_FLAG_CODECCONFIG = 0
      \<and> deq_size ?d \<noteq> 0"
    "videoTrackIdx initial_state = - 1" "audioTrackIdx initial_state = - 1"
    by (simp_all add: data_buffer_def quiet_out_def initial_state_def BUFFER_FLAG_CODECCONFIG_def)
  have x: "snd (iteration False ?x initial_state) = Inl CheckFailed"
    "\<not> gStopRequested initial_state" "\<not> sig_before_test ?x"
    "\<not> (180000000000 :: int64) <s now_test ?x"
    by code_simp+
  have f: "deq_status ?f = INFO_FORMAT_CHANGED" "start_status ?f = NO_ERROR"
    "addTrack_ret ?f = 7" "tracksAdded ?s + 1 = 2"
    by (simp_all add: format_changed_def quiet_out_def)
  from protocol_violations [where e = ?d and s = initial_state and r = False and x = ?x
        and w = 180000000000 and es = "[]"]
    protocol_violations [where e = ?f and s = ?s and r = True and x = ?x
        and w = 180000000000 and es = "[]"] d x f
  show ?thesis
    by simp
qed

text \<open>
  Claim C7 as stated fails for the second format change: in a session with audio the
  video encoder reports two format changes, both are registered, the muxer is started on
  the second and the loop goes on.
\<close>

theorem second_format_absorbed:
  "runEncoder with_audio pre_ok twice_video
     = ([GetOutputBuffers Video, GetOutputBuffers Audio, GetInputBuffers, RecorderInit,
         RecorderStart,
         DequeueInputBuffer, DequeueOutputBuffer Video, GetOutputFormat Video, AddTrack Video,
         DequeueOutputBuffer Audio,
         DequeueInputBuffer, DequeueOutputBuffer Video, GetOutputFormat Video, AddTrack Video,
         MuxerStart, DequeueOutputBuffer Audio],
        Running \<lparr>videoTrackIdx = 1, audioTrackIdx = - 1, debugNumFrames = 0, tracksAdded = 2,
                 lastAudioPtsUs = 0, gStopRequested = False\<rparr>)"
  by code_simp

end
